theory Spec2Isabelle
  imports Main "HOL-Library.Sublist"
begin

section \<open>Python string primitives used by the pipeline\<close>

text \<open>
  Strings are modelled as \<^typ>\<open>string\<close>. The whitespace and letter classes are the ASCII
  ones (Python's \<^verbatim>\<open>str.isspace\<close> on code points 9-13, 28-32; letters A-Z and a-z);
  characters outside ASCII are treated as caseless non-whitespace symbols.
\<close>

definition py_isspace :: "char \<Rightarrow> bool" where
  "py_isspace c = (let n = (of_char c :: nat) in (9 \<le> n \<and> n \<le> 13) \<or> (28 \<le> n \<and> n \<le> 32))"

definition py_strip :: "string \<Rightarrow> string" where
  "py_strip s = rev (dropWhile py_isspace (rev (dropWhile py_isspace s)))"

definition is_upper :: "char \<Rightarrow> bool" where
  "is_upper c = (let n = (of_char c :: nat) in 65 \<le> n \<and> n \<le> 90)"

definition is_lower :: "char \<Rightarrow> bool" where
  "is_lower c = (let n = (of_char c :: nat) in 97 \<le> n \<and> n \<le> 122)"

text \<open>Upper and lower case ASCII letters differ in the bit of weight 32.\<close>

definition to_lower :: "char \<Rightarrow> char" where
  "to_lower c =
     (if is_upper c
      then (case c of Char b0 b1 b2 b3 b4 b5 b6 b7 \<Rightarrow> Char b0 b1 b2 b3 b4 True b6 b7)
      else c)"

definition to_upper :: "char \<Rightarrow> char" where
  "to_upper c =
     (if is_lower c
      then (case c of Char b0 b1 b2 b3 b4 b5 b6 b7 \<Rightarrow> Char b0 b1 b2 b3 b4 False b6 b7)
      else c)"

definition py_lower :: "string \<Rightarrow> string" where
  "py_lower s = map to_lower s"

text \<open>
  \<^verbatim>\<open>str.title()\<close>: a letter that follows a letter is lowered, any other letter is
  raised, and other characters are kept and end the word.
\<close>

fun title_from :: "bool \<Rightarrow> string \<Rightarrow> string" where
  "title_from prev [] = []"
| "title_from prev (c # cs) =
     (if is_upper c \<or> is_lower c
      then (if prev then to_lower c else to_upper c) # title_from True cs
      else c # title_from False cs)"

definition py_title :: "string \<Rightarrow> string" where
  "py_title s = title_from False s"

text \<open>\<^verbatim>\<open>str.split()\<close> with no argument: the maximal runs of non-whitespace.\<close>

fun split_ws :: "string \<Rightarrow> string \<Rightarrow> string list" where
  "split_ws cur [] = (if cur = [] then [] else [cur])"
| "split_ws cur (c # cs) =
     (if py_isspace c
      then (if cur = [] then split_ws [] cs else cur # split_ws [] cs)
      else split_ws (cur @ [c]) cs)"

definition py_split :: "string \<Rightarrow> string list" where
  "py_split s = split_ws [] s"

text \<open>\<^verbatim>\<open>str.split(sep)\<close> for a one-character separator: never an empty list.\<close>

fun split_sep :: "char \<Rightarrow> string \<Rightarrow> string \<Rightarrow> string list" where
  "split_sep sep cur [] = [cur]"
| "split_sep sep cur (c # cs) =
     (if c = sep then cur # split_sep sep [] cs else split_sep sep (cur @ [c]) cs)"

definition py_split_on :: "char \<Rightarrow> string \<Rightarrow> string list" where
  "py_split_on sep s = split_sep sep [] s"

text \<open>The substring test \<^verbatim>\<open>x in q\<close> on strings.\<close>

fun py_in :: "string \<Rightarrow> string \<Rightarrow> bool" where
  "py_in x [] = (x = [])"
| "py_in x (c # cs) = (prefix x (c # cs) \<or> py_in x cs)"

text \<open>\<^verbatim>\<open>s.replace(",", "")\<close>.\<close>

definition drop_commas :: "string \<Rightarrow> string" where
  "drop_commas s = filter (\<lambda>c. c \<noteq> CHR '','') s"

text \<open>\<^verbatim>\<open>str(n)\<close> for a non-negative integer.\<close>

definition digit_char :: "nat \<Rightarrow> char" where
  "digit_char d = char_of (48 + d)"

fun str_nat :: "nat \<Rightarrow> string" where
  "str_nat n = (if n < 10 then [digit_char n] else str_nat (n div 10) @ [digit_char (n mod 10)])"

declare str_nat.simps [simp del]

text \<open>
  \<^verbatim>\<open>sorted(xs, key=f, reverse=True)\<close>: CPython reverses the list, sorts it stably in
  ascending key order and reverses the result, so equal keys keep their input order.
\<close>

definition py_sorted_reverse :: "('a \<Rightarrow> nat) \<Rightarrow> 'a list \<Rightarrow> 'a list" where
  "py_sorted_reverse f xs = rev (sort_key f (rev xs))"

section \<open>The candidate extractor (location_extractor.py)\<close>

text \<open>
  The nine compiled patterns, each named here by its leading keyword: the keyword,
  whitespace, then a capitalised token (for \<^verbatim>\<open>jalan\<close> a capital followed by anything
  up to whitespace or a comma), matched case-insensitively. The regular-expression engine,
  the named-entity recogniser and the iteration order of a Python \<^verbatim>\<open>set\<close> are
  parameters: \<open>findall p text\<close> is \<^verbatim>\<open>pat.findall(text)\<close>, \<open>ents text\<close> the
  \<open>(text, label)\<close> pairs of \<^verbatim>\<open>nlp(text).ents\<close> (\<open>None\<close> when the recogniser raises),
  and \<open>set_iter xs\<close> the order in which \<^verbatim>\<open>list(set(xs))\<close> lists the elements.
\<close>

definition LOCATION_PATTERNS :: "string list" where
  "LOCATION_PATTERNS =
     [''desa'', ''kelurahan'', ''kecamatan'', ''kabupaten'', ''kota'',
      ''jalan'', ''gunung'', ''bukit'', ''tukad'']"

record nlp_env =
  findall :: "string \<Rightarrow> string \<Rightarrow> string list"
  ents :: "string \<Rightarrow> (string \<times> string) list option"
  set_iter :: "string list \<Rightarrow> string list"

definition rule_matches :: "nlp_env \<Rightarrow> string \<Rightarrow> string list" where
  "rule_matches E text = concat (map (\<lambda>pat. findall E pat text) LOCATION_PATTERNS)"

definition ner_matches :: "(string \<times> string) list \<Rightarrow> string list" where
  "ner_matches es = map fst (filter (\<lambda>e. snd e = ''LOC'' \<or> snd e = ''GPE'') es)"

definition normalize :: "string list \<Rightarrow> string list" where
  "normalize locations = map (\<lambda>loc. py_title (py_strip loc)) locations"

definition rank_locations :: "nlp_env \<Rightarrow> string list \<Rightarrow> string list" where
  "rank_locations E cleaned = py_sorted_reverse (count_list cleaned) (set_iter E cleaned)"

definition extract_locations :: "nlp_env \<Rightarrow> string \<Rightarrow> string list option" where
  "extract_locations E text =
     (case ents E text of
        None \<Rightarrow> None
      | Some es \<Rightarrow>
          (let locations = rule_matches E text @ ner_matches es;
               cleaned = normalize locations
           in Some (rank_locations E cleaned)))"

text \<open>What Python guarantees about the iteration order of a set: the elements, once each.\<close>

definition set_order_ok :: "(string list \<Rightarrow> string list) \<Rightarrow> bool" where
  "set_order_ok it \<longleftrightarrow> (\<forall>xs. distinct (it xs) \<and> set (it xs) = set xs)"

text \<open>
  The ranking as the specification words it: deduplicate keeping first appearances, then
  order by occurrence count, descending and stable.
\<close>

definition first_appearance :: "string list \<Rightarrow> string list" where
  "first_appearance xs = rev (remdups (rev xs))"

definition spec_rank :: "string list \<Rightarrow> string list" where
  "spec_rank cleaned = py_sorted_reverse (count_list cleaned) (first_appearance cleaned)"

section \<open>The location refiner (preciselocation.py)\<close>

subsection \<open>Data\<close>

text \<open>
  A property value of a GeoJSON feature: null, a string or a number. Numbers are the
  geocoder's floats; the refiner never computes with them, so their type is a parameter
  \<open>'f\<close>, with Python's truth value and \<^verbatim>\<open>str()\<close> of a float supplied by the
  environment. A properties object is a dictionary from keys to such values.
\<close>

datatype 'f jv = JNull | JStr string | JNum 'f

type_synonym 'f props = "string \<rightharpoonup> 'f jv"

record 'f geom =
  gtype :: string
  coordinates :: "'f list"

record 'f feature =
  properties :: "'f props"
  geometry :: "'f geom option"

text \<open>
  What the external geocoder does with one query: it raises (also when a coordinate of the
  answer is not a float), returns nothing, or returns a location. The answer may depend on
  the calls made so far, which are the first argument of \<open>geocode\<close>.
\<close>

datatype 'f reply = Raises | NoResult | Found 'f 'f string

record 'f env =
  geocode :: "string list \<Rightarrow> string \<Rightarrow> 'f reply"
  nlp :: nlp_env
  float_truthy :: "'f \<Rightarrow> bool"
  float_str :: "'f \<Rightarrow> string"

text \<open>
  The module-level state: the cache, the set of tried queries, the three counters and the
  rows of the CSV backup. \<open>calls\<close> is a log of the strings sent to the external geocoder,
  kept to state how often it is called.
\<close>

record 'f run_state =
  geocode_cache :: "string \<rightharpoonup> ('f \<times> 'f \<times> string) option"
  tried_queries :: "string set"
  calls :: "string list"
  updated :: nat
  skipped :: nat
  errors :: nat
  csv_rows :: "'f props list"

definition initial_state :: "'f run_state" where
  "initial_state =
     \<lparr>geocode_cache = Map.empty, tried_queries = {}, calls = [],
      updated = 0, skipped = 0, errors = 0, csv_rows = []\<rparr>"

text \<open>The outcome of a successful resolution (the \<open>found_\<close> and \<open>used_\<close> variables).\<close>

record 'f resolved =
  found_lat :: 'f
  found_lon :: 'f
  found_display :: string
  used_query :: string
  used_source :: string

datatype exn = AttributeError

subsection \<open>Truth values and dictionary reads\<close>

definition py_truthy :: "'f env \<Rightarrow> 'f jv \<Rightarrow> bool" where
  "py_truthy E v = (case v of JNull \<Rightarrow> False | JStr s \<Rightarrow> s \<noteq> [] | JNum x \<Rightarrow> float_truthy E x)"

definition py_str :: "'f env \<Rightarrow> 'f jv \<Rightarrow> string" where
  "py_str E v = (case v of JNull \<Rightarrow> ''None'' | JStr s \<Rightarrow> s | JNum x \<Rightarrow> float_str E x)"

definition get_prop :: "'f props \<Rightarrow> string \<Rightarrow> 'f jv" where
  "get_prop props k = (case props k of None \<Rightarrow> JNull | Some v \<Rightarrow> v)"

definition py_or :: "'f env \<Rightarrow> 'f jv \<Rightarrow> 'f jv \<Rightarrow> 'f jv" where
  "py_or E a b = (if py_truthy E a then a else b)"

definition str_truthy :: "string option \<Rightarrow> bool" where
  "str_truthy k = (case k of None \<Rightarrow> False | Some s \<Rightarrow> s \<noteq> [])"

subsection \<open>The cached geocoder\<close>

definition geocode_cached ::
  "'f env \<Rightarrow> 'f run_state \<Rightarrow> string \<Rightarrow> ('f \<times> 'f \<times> string) option \<times> 'f run_state" where
  "geocode_cached E s query =
     (let q = py_strip query in
      if q = [] then (None, s)
      else (case geocode_cache s q of
              Some r \<Rightarrow> (r, s)
            | None \<Rightarrow>
                (case geocode E (calls s) q of
                   Found la lo ad \<Rightarrow>
                     (Some (la, lo, ad),
                      s\<lparr>geocode_cache := (geocode_cache s)(q \<mapsto> Some (la, lo, ad)),
                        calls := calls s @ [q]\<rparr>)
                 | _ \<Rightarrow>
                     (None,
                      s\<lparr>geocode_cache := (geocode_cache s)(q \<mapsto> None),
                        calls := calls s @ [q]\<rparr>))))"

subsection \<open>Region hint and candidates of one feature\<close>

definition cleaned_of :: "'f env \<Rightarrow> 'f props \<Rightarrow> 'f jv" where
  "cleaned_of E props =
     py_or E (get_prop props ''cleaned_content'') (py_or E (get_prop props ''content'') (JStr []))"

definition kabupaten_raw :: "'f env \<Rightarrow> 'f props \<Rightarrow> string option" where
  "kabupaten_raw E props =
     (if py_truthy E (get_prop props ''location_name'')
      then Some (py_strip (py_str E (get_prop props ''location_name'')))
      else if py_truthy E (get_prop props ''keyword'')
      then (let kw = py_split (py_strip (py_str E (get_prop props ''keyword'')))
            in if length kw \<ge> 2 then Some (kw ! 1) else None)
      else if py_truthy E (get_prop props ''Location'')
      then Some (py_strip (py_str E (get_prop props ''Location'')))
      else None)"

definition kabupaten_of :: "'f env \<Rightarrow> 'f props \<Rightarrow> string option" where
  "kabupaten_of E props =
     (case kabupaten_raw E props of
        None \<Rightarrow> None
      | Some k \<Rightarrow> if k \<noteq> [] then Some (py_strip (drop_commas k)) else None)"

text \<open>The loop that makes the extracted names unique, keeping their order.\<close>

fun unique_candidates :: "string set \<Rightarrow> string list \<Rightarrow> string list" where
  "unique_candidates seen [] = []"
| "unique_candidates seen (ex # rest) =
     (let exs = py_strip ex in
      if exs \<noteq> [] \<and> py_lower exs \<notin> seen
      then exs # unique_candidates (insert (py_lower exs) seen) rest
      else unique_candidates seen rest)"

text \<open>
  \<open>cleaned\<close> is a truthy value or the empty string. A number there has no \<^verbatim>\<open>strip\<close>:
  the attribute error leaves the inner \<^verbatim>\<open>try\<close> untouched and reaches the outer handler.
  A failure of the extractor gives no candidates.
\<close>

definition candidates_of :: "'f env \<Rightarrow> 'f jv \<Rightarrow> exn + string list" where
  "candidates_of E cleaned =
     (case cleaned of
        JNull \<Rightarrow> Inr []
      | JNum x \<Rightarrow> if float_truthy E x then Inl AttributeError else Inr []
      | JStr t \<Rightarrow>
          if t \<noteq> [] \<and> py_strip t \<noteq> []
          then (case extract_locations (nlp E) t of
                  None \<Rightarrow> Inr []
                | Some extracted \<Rightarrow> Inr (unique_candidates {} extracted))
          else Inr [])"

subsection \<open>Query attempts and resolution\<close>

definition query_attempts :: "string list \<Rightarrow> string option \<Rightarrow> string list" where
  "query_attempts candidates kabupaten =
     (if str_truthy kabupaten
      then map (\<lambda>c. c @ '', '' @ the kabupaten @ '', Bali, Indonesia'') candidates else [])
     @ map (\<lambda>c. c @ '', Bali, Indonesia'') candidates
     @ (if str_truthy kabupaten then [the kabupaten @ '', Bali, Indonesia''] else [])
     @ [''Bali, Indonesia'']"

definition source_of :: "string list \<Rightarrow> string option \<Rightarrow> string \<Rightarrow> string" where
  "source_of candidates kabupaten q =
     (if py_in '','' q \<and> list_ex (\<lambda>c. py_in c q) candidates then ''article_place''
      else if str_truthy kabupaten \<and> py_in (the kabupaten) q then ''kabupaten_fallback''
      else ''bali_fallback'')"

text \<open>One turn of the loop over the attempts: the lookup of lines 149 to 153.\<close>

definition lookup ::
  "'f env \<Rightarrow> 'f run_state \<Rightarrow> string \<Rightarrow> ('f \<times> 'f \<times> string) option \<times> 'f run_state" where
  "lookup E s q =
     (case (if q \<in> tried_queries s then geocode_cache s q else None) of
        Some r \<Rightarrow> (r, s)
      | None \<Rightarrow>
          (let (r, s') = geocode_cached E s q
           in (r, s'\<lparr>tried_queries := insert q (tried_queries s')\<rparr>)))"

fun try_queries ::
  "'f env \<Rightarrow> string list \<Rightarrow> string option \<Rightarrow> 'f run_state \<Rightarrow> string list
     \<Rightarrow> 'f resolved option \<times> 'f run_state" where
  "try_queries E candidates kabupaten s [] = (None, s)"
| "try_queries E candidates kabupaten s (q # qs) =
     (case lookup E s q of
        (Some (lat, lon, display), s') \<Rightarrow>
          (Some \<lparr>found_lat = lat, found_lon = lon, found_display = display,
                 used_query = q, used_source = source_of candidates kabupaten q\<rparr>, s')
      | (None, s') \<Rightarrow> try_queries E candidates kabupaten s' qs)"

subsection \<open>One feature, and the run\<close>

definition csv_row :: "'f props \<Rightarrow> 'f jv \<Rightarrow> 'f jv \<Rightarrow> 'f jv \<Rightarrow> 'f jv \<Rightarrow> 'f props" where
  "csv_row props lat lon query source =
     props(''refined_lat'' \<mapsto> lat, ''refined_lon'' \<mapsto> lon,
           ''refined_location_query'' \<mapsto> query, ''refine_source'' \<mapsto> source)"

definition skip_feature :: "'f run_state \<Rightarrow> 'f feature \<Rightarrow> 'f feature \<times> 'f run_state" where
  "skip_feature s f =
     (let props = (properties f)(''refine_status'' \<mapsto> JStr ''no_geocode_found'',
                                 ''refined_location'' \<mapsto> JNull,
                                 ''refine_source'' \<mapsto> JNull)
      in (f\<lparr>properties := props\<rparr>,
          s\<lparr>skipped := skipped s + 1,
            csv_rows := csv_rows s @ [csv_row props JNull JNull JNull JNull]\<rparr>))"

definition update_feature ::
  "'f run_state \<Rightarrow> 'f feature \<Rightarrow> 'f resolved \<Rightarrow> 'f feature \<times> 'f run_state" where
  "update_feature s f r =
     (let props = (properties f)
            (''refined_location_query'' \<mapsto> JStr (used_query r),
             ''refined_location'' \<mapsto>
                JStr (if found_display r \<noteq> [] then found_display r else used_query r),
             ''refine_source'' \<mapsto> JStr (used_source r),
             ''latitude_refined'' \<mapsto> JNum (found_lat r),
             ''longitude_refined'' \<mapsto> JNum (found_lon r),
             ''latitude'' \<mapsto> JNum (found_lat r),
             ''longitude'' \<mapsto> JNum (found_lon r))
      in (f\<lparr>properties := props,
            geometry := Some \<lparr>gtype = ''Point'', coordinates = [found_lon r, found_lat r]\<rparr>\<rparr>,
          s\<lparr>updated := updated s + 1,
            csv_rows := csv_rows s @
              [csv_row props (JNum (found_lat r)) (JNum (found_lon r))
                 (JStr (used_query r)) (JStr (used_source r))]\<rparr>))"

text \<open>The text of the attribute error, \<^verbatim>\<open>str(e)\<close>.\<close>

definition exn_text :: "exn \<Rightarrow> string" where
  "exn_text e =
     [CHR 0x27] @ ''float'' @ [CHR 0x27] @ '' object has no attribute '' @
     [CHR 0x27] @ ''strip'' @ [CHR 0x27]"

definition error_feature :: "'f run_state \<Rightarrow> 'f feature \<Rightarrow> exn \<Rightarrow> 'f feature \<times> 'f run_state" where
  "error_feature s f e =
     (let props = (properties f)(''refine_error'' \<mapsto> JStr (exn_text e))
      in (f\<lparr>properties := props\<rparr>,
          s\<lparr>errors := errors s + 1,
            csv_rows := csv_rows s @ [csv_row props JNull JNull JNull (JStr ''error'')]\<rparr>))"

definition refine_feature ::
  "'f env \<Rightarrow> 'f run_state \<Rightarrow> 'f feature \<Rightarrow> 'f feature \<times> 'f run_state" where
  "refine_feature E s f =
     (let props = properties f;
          cleaned = cleaned_of E props;
          kabupaten = kabupaten_of E props
      in case candidates_of E cleaned of
           Inl e \<Rightarrow> error_feature s f e
         | Inr candidates \<Rightarrow>
             (case try_queries E candidates kabupaten s (query_attempts candidates kabupaten) of
                (None, s') \<Rightarrow> skip_feature s' f
              | (Some r, s') \<Rightarrow> update_feature s' f r))"

fun refine_all ::
  "'f env \<Rightarrow> 'f run_state \<Rightarrow> 'f feature list \<Rightarrow> 'f feature list \<times> 'f run_state" where
  "refine_all E s [] = ([], s)"
| "refine_all E s (f # fs) =
     (let (f', s1) = refine_feature E s f;
          (fs', s2) = refine_all E s1 fs
      in (f' # fs', s2))"

subsection \<open>Provenance as the specification tags it\<close>

text \<open>
  The specification tags every query with its tier when the list is built. The code keeps
  no tag; \<open>tagged_attempts\<close> is the list with the tags of the specification, and
  \<open>tier_label\<close> the string the code writes for a tier.
\<close>

datatype provenance = article_place | kabupaten_fallback | region_fallback

definition tagged_attempts :: "string list \<Rightarrow> string option \<Rightarrow> (string \<times> provenance) list" where
  "tagged_attempts candidates kabupaten =
     (if str_truthy kabupaten
      then map (\<lambda>c. (c @ '', '' @ the kabupaten @ '', Bali, Indonesia'', article_place)) candidates
      else [])
     @ map (\<lambda>c. (c @ '', Bali, Indonesia'', article_place)) candidates
     @ (if str_truthy kabupaten
        then [(the kabupaten @ '', Bali, Indonesia'', kabupaten_fallback)] else [])
     @ [(''Bali, Indonesia'', region_fallback)]"

definition tier_label :: "provenance \<Rightarrow> string" where
  "tier_label t =
     (case t of article_place \<Rightarrow> ''article_place''
      | kabupaten_fallback \<Rightarrow> ''kabupaten_fallback''
      | region_fallback \<Rightarrow> ''bali_fallback'')"

section \<open>The source adapters (news_scraper/spiders)\<close>

text \<open>
  A call of a helper of \<^verbatim>\<open>news_scraper.utils\<close>, whose code is not part of the
  sources at hand, either raises or returns; the helpers are parameters of the adapters.
  A generator that raises yields nothing more.
\<close>

datatype 'a outcome = Raised | Returned 'a

subsection \<open>The search-API adapter (CNN.py)\<close>

datatype callback = ParseSearch | ParseArticle

record cnn_meta =
  m_keyword :: string
  m_source :: string
  m_start :: "nat option"

record cnn_request =
  rq_url :: string
  rq_callback :: callback
  rq_meta :: cnn_meta

record cnn_item =
  it_title :: string
  it_publish_date :: "string option"
  it_author :: string
  it_content :: string
  it_keyword :: string
  it_source :: string
  it_link :: string

text \<open>
  What the adapter reads of a response: the \<^verbatim>\<open>location\<close> header, the JSON body
  (\<open>None\<close> when it does not parse) with its \<^verbatim>\<open>data\<close> entry (\<open>None\<close> when missing or
  null), and the texts of the four nodes it selects from the document (\<open>None\<close> when the
  node is missing).
\<close>

record cnn_entry =
  e_url :: "string option"

record cnn_json =
  js_data :: "cnn_entry list option"

record cnn_page =
  pg_location :: "string option"
  pg_json :: "cnn_json option"
  pg_detail_text :: "string option"
  pg_h1 :: "string option"
  pg_date :: "string option"
  pg_author :: "string option"

record cnn_response =
  rs_url :: string
  rs_meta :: cnn_meta
  rs_page :: cnn_page

datatype cnn_out = Req cnn_request | Item cnn_item

text \<open>
  A callback is a generator: it yields requests and records, and it may raise after some of
  them. Its result is the list of what it yielded, with the error that ended it, if any.
  The constructor of a request, \<^verbatim>\<open>scrapy.Request\<close>, raises a \<^verbatim>\<open>ValueError\<close> for an
  address with no scheme: one that holds no \<^verbatim>\<open>://\<close> and starts with neither
  \<^verbatim>\<open>about:\<close> nor \<^verbatim>\<open>data:\<close>. The adapter hands it the addresses as it reads them,
  without joining them to the address of the response.
\<close>

datatype crawl_error = ValueError | HelperError

type_synonym yielded = "cnn_out list \<times> crawl_error option"

definition has_scheme :: "string \<Rightarrow> bool" where
  "has_scheme url \<longleftrightarrow> py_in ''://'' url \<or> prefix ''about:'' url \<or> prefix ''data:'' url"

record cnn_env =
  quote_plus :: "string \<Rightarrow> string"
  indo_to_datetime :: "string \<Rightarrow> string option outcome"

definition search_url :: "cnn_env \<Rightarrow> string \<Rightarrow> nat \<Rightarrow> string" where
  "search_url E keyword start =
     ''https://www.cnnindonesia.com/api/v2/search?query='' @ quote_plus E keyword @
     ''&start='' @ str_nat start @ ''&limit=10''"


definition entry_urls :: "cnn_entry list \<Rightarrow> string list" where
  "entry_urls items =
     concat (map (\<lambda>article. case e_url article of
                                None \<Rightarrow> []
                              | Some url \<Rightarrow> if url = [] then [] else [url]) items)"

text \<open>
  The loop over the articles of a result page: one request for each address, until the
  constructor raises for one of them; the articles after it are lost.
\<close>

fun article_requests :: "cnn_meta \<Rightarrow> string list \<Rightarrow> yielded" where
  "article_requests meta [] = ([], None)"
| "article_requests meta (url # urls) =
     (if has_scheme url
      then (case article_requests meta urls of
              (outs, err) \<Rightarrow>
                (Req \<lparr>rq_url = url, rq_callback = ParseArticle, rq_meta = meta\<rparr> # outs, err))
      else ([], Some ValueError))"

definition cnn_parse_search :: "cnn_env \<Rightarrow> cnn_response \<Rightarrow> yielded" where
  "cnn_parse_search E response =
     (let start = (case m_start (rs_meta response) of None \<Rightarrow> 0 | Some n \<Rightarrow> n) in
      case pg_json (rs_page response) of
        None \<Rightarrow> ([], None)
      | Some data \<Rightarrow>
          (let items = (case js_data data of None \<Rightarrow> [] | Some xs \<Rightarrow> xs) in
           if items = [] then ([], None)
           else
             (let meta = (rs_meta response)\<lparr>m_start := Some (start + 10)\<rparr>;
                  next_url = search_url E (m_keyword meta) (start + 10)
              in if has_scheme next_url
                 then (case article_requests meta (entry_urls items) of
                         (outs, err) \<Rightarrow>
                           (Req \<lparr>rq_url = next_url, rq_callback = ParseSearch, rq_meta = meta\<rparr>
                              # outs, err))
                 else ([], Some ValueError))))"

definition text_or_empty :: "string option \<Rightarrow> string" where
  "text_or_empty t = (case t of None \<Rightarrow> [] | Some x \<Rightarrow> x)"

definition cnn_content :: "string \<Rightarrow> string \<Rightarrow> string \<Rightarrow> string \<Rightarrow> string" where
  "cnn_content title author publish_date content =
     py_strip ([CHR 0x0A] @ ''judul: '' @ title @ [CHR 0x0A] @ ''author: '' @ author @
               [CHR 0x0A] @ ''tanggal: '' @ publish_date @ [CHR 0x0A] @ content @ [CHR 0x0A])"

definition cnn_parse :: "cnn_env \<Rightarrow> cnn_response \<Rightarrow> yielded" where
  "cnn_parse E response =
     (case pg_location (rs_page response) of
        Some target \<Rightarrow>
          if has_scheme target
          then ([Req \<lparr>rq_url = target, rq_callback = ParseArticle, rq_meta = rs_meta response\<rparr>],
                None)
          else ([], Some ValueError)
      | None \<Rightarrow>
          (case pg_detail_text (rs_page response) of
             None \<Rightarrow> ([], None)
           | Some body \<Rightarrow>
               (let title = text_or_empty (pg_h1 (rs_page response));
                    publish_date = text_or_empty (pg_date (rs_page response));
                    author = text_or_empty (pg_author (rs_page response));
                    content = py_strip body
                in case indo_to_datetime E publish_date of
                     Raised \<Rightarrow> ([], Some HelperError)
                   | Returned d \<Rightarrow>
                       ([Item \<lparr>it_title = title, it_publish_date = d, it_author = author,
                               it_content = cnn_content title author publish_date content,
                               it_keyword = m_keyword (rs_meta response),
                               it_source = m_source (rs_meta response),
                               it_link = rs_url response\<rparr>], None))))"

text \<open>
  The crawl engine that dispatches the requests is the framework's. Two drivers stand for
  it: each fetches the response of a request from a simulated site (a map from addresses
  to pages), hands it to the callback the request names (\<open>dispatch\<close>) and goes on with
  the requests the callback yielded, also when it raised afterwards. \<open>page_chain\<close>
  follows the pagination requests and returns the page requests issued;
  \<open>article_chain\<close> follows the article requests and returns the follow-up requests and
  the records. Both take fuel: \<open>None\<close> means the chain was not finished within it. The
  filters of the engine (duplicates, foreign domains) are not part of the drivers.
\<close>

definition fetch :: "(string \<Rightarrow> cnn_page) \<Rightarrow> cnn_request \<Rightarrow> cnn_response" where
  "fetch site rq = \<lparr>rs_url = rq_url rq, rs_meta = rq_meta rq, rs_page = site (rq_url rq)\<rparr>"

fun requests_of :: "callback \<Rightarrow> cnn_out list \<Rightarrow> cnn_request list" where
  "requests_of cb [] = []"
| "requests_of cb (Req r # outs) =
     (if rq_callback r = cb then r # requests_of cb outs else requests_of cb outs)"
| "requests_of cb (Item i # outs) = requests_of cb outs"

fun items_of :: "cnn_out list \<Rightarrow> cnn_item list" where
  "items_of [] = []"
| "items_of (Req r # outs) = items_of outs"
| "items_of (Item i # outs) = i # items_of outs"

definition dispatch :: "cnn_env \<Rightarrow> (string \<Rightarrow> cnn_page) \<Rightarrow> cnn_request \<Rightarrow> cnn_out list" where
  "dispatch E site rq =
     fst (case rq_callback rq of
            ParseSearch \<Rightarrow> cnn_parse_search E (fetch site rq)
          | ParseArticle \<Rightarrow> cnn_parse E (fetch site rq))"


fun article_chain ::
  "cnn_env \<Rightarrow> (string \<Rightarrow> cnn_page) \<Rightarrow> nat \<Rightarrow> cnn_request
     \<Rightarrow> (cnn_request list \<times> cnn_item list) option" where
  "article_chain E site 0 rq = None"
| "article_chain E site (Suc n) rq =
     (let outs = dispatch E site rq in
      case requests_of ParseArticle outs of
        [] \<Rightarrow> Some ([], items_of outs)
      | nxt # _ \<Rightarrow>
          map_option (\<lambda>(followed, items). (nxt # followed, items_of outs @ items))
            (article_chain E site n nxt))"

subsection \<open>The rendered-HTML adapter (Mongabay.py)\<close>

datatype mb_callback = MbParseSearch | MbParse

record mb_meta =
  mb_keyword :: "string option"
  mb_source :: "string option"
  mb_playwright :: bool
  publish_date_override :: "string option"
  author_override :: "string option"

record mb_request =
  mq_url :: string
  mq_callback :: mb_callback
  mq_meta :: mb_meta

record mb_item =
  mi_title :: string
  mi_link :: string
  mi_content :: string
  mi_author :: string
  mi_publish_date :: "string option"
  mi_keyword :: "string option"
  mi_source :: "string option"

text \<open>
  An article element of a result page: the \<^verbatim>\<open>href\<close> of its title anchor and of its
  first anchor (outer \<open>None\<close>: no such anchor; inner \<open>None\<close>: no such attribute). A page:
  the elements the three article selectors find, the \<^verbatim>\<open>href\<close>s of the page-number and
  next anchors, those of all anchors, and the texts of the four nodes of an article page.
\<close>

record article_el =
  el_title_a :: "string option option"
  el_first_a :: "string option option"

record mb_page =
  sel_post_news :: "article_el list"
  sel_article :: "article_el list"
  sel_post :: "article_el list"
  sel_page_numbers :: "string option list"
  sel_next :: "string option list"
  sel_anchors :: "string list"
  art_headline :: "string option"
  art_main :: "string option"
  art_meta_a :: "string option"
  art_meta_text :: "string option"

record mb_response =
  ms_url :: string
  ms_meta :: mb_meta
  ms_page :: mb_page

datatype mb_out = MReq mb_request | MItem mb_item


text \<open>
  \<open>urljoin\<close> resolves a link against the address of the response, \<open>has_date_path\<close> is
  the search for a year or a date between slashes, and the two date helpers are those of
  \<^verbatim>\<open>news_scraper.utils\<close> (\<open>string_to_datetime\<close> with the formatting of its result).
\<close>

record mb_env =
  urljoin :: "string \<Rightarrow> string \<Rightarrow> string"
  has_date_path :: "string \<Rightarrow> bool"
  mb_indo_to_datetime :: "string \<Rightarrow> string option outcome"
  string_to_datetime :: "string \<Rightarrow> string option outcome"






definition date_truthy :: "string option \<Rightarrow> bool" where
  "date_truthy d = (case d of None \<Rightarrow> False | Some x \<Rightarrow> x \<noteq> [])"

definition mb_publish_date :: "mb_env \<Rightarrow> string option \<Rightarrow> string option" where
  "mb_publish_date E el =
     (case el of
        None \<Rightarrow> None
      | Some t \<Rightarrow>
          (let splitted = py_split_on CHR '' '' (py_strip t); n = length splitted in
           if n \<ge> 3
           then (case mb_indo_to_datetime E
                        (splitted ! (n - 3) @ '' '' @ splitted ! (n - 2) @ '' '' @
                         splitted ! (n - 1)) of
                   Raised \<Rightarrow> None
                 | Returned d \<Rightarrow> d)
           else None))"

definition mb_parse :: "mb_env \<Rightarrow> mb_response \<Rightarrow> mb_out list" where
  "mb_parse E response =
     (let page = ms_page response;
          title = py_strip (text_or_empty (art_headline page));
          content = py_strip (text_or_empty (art_main page));
          author0 = py_strip (text_or_empty (art_meta_a page));
          date0 = mb_publish_date E (art_meta_text page);
          author = (if date_truthy (author_override (ms_meta response))
                    then the (author_override (ms_meta response)) else author0);
          publish_date =
            (if date_truthy (publish_date_override (ms_meta response)) \<and> \<not> date_truthy date0
             then (case string_to_datetime E (the (publish_date_override (ms_meta response))) of
                     Raised \<Rightarrow> publish_date_override (ms_meta response)
                   | Returned dt \<Rightarrow> if date_truthy dt then dt else date0)
             else date0)
      in if title = [] \<and> content = [] then []
         else [MItem \<lparr>mi_title = title, mi_link = ms_url response, mi_content = content,
                      mi_author = author, mi_publish_date = publish_date,
                      mi_keyword = mb_keyword (ms_meta response),
                      mi_source = mb_source (ms_meta response)\<rparr>])"

section \<open>Predicates and sample data for the properties\<close>

text \<open>
  No query of the list can yield a coordinate: the geocoder never finds its stripped form,
  and the cache holds no hit for it.
\<close>

definition no_coordinate :: "'f env \<Rightarrow> 'f run_state \<Rightarrow> string list \<Rightarrow> bool" where
  "no_coordinate E s qs \<longleftrightarrow>
     (\<forall>q \<in> set qs.
        (\<forall>h la lo ad. geocode E h (py_strip q) \<noteq> Found la lo ad) \<and>
        (\<forall>r. geocode_cache s q \<noteq> Some (Some r)) \<and>
        (\<forall>r. geocode_cache s (py_strip q) \<noteq> Some (Some r)))"

text \<open>What \<open>geocode_cached\<close> makes of a reply of the geocoder.\<close>

definition answer :: "'f reply \<Rightarrow> ('f \<times> 'f \<times> string) option" where
  "answer rep = (case rep of Found la lo ad \<Rightarrow> Some (la, lo, ad) | _ \<Rightarrow> None)"

text \<open>
  The invariant of the cache: no string was sent to the geocoder twice, and every string
  sent has an entry in the cache.
\<close>

definition cache_inv :: "'f run_state \<Rightarrow> bool" where
  "cache_inv s \<longleftrightarrow> distinct (calls s) \<and> set (calls s) \<subseteq> dom (geocode_cache s)"

text \<open>
  A sample text with two rule matches and no entity, a set that lists its elements in
  reverse, a geocoder that knows one regency and the island, one that is unreachable, and
  a sample feature.
\<close>

definition demo_nlp :: nlp_env where
  "demo_nlp =
     \<lparr>findall = (\<lambda>pat text.
         if text = ''Banjir di desa Kuta dan kota Ubud''
         then (if pat = ''desa'' then [''desa Kuta'']
               else if pat = ''kota'' then [''kota Ubud''] else [])
         else []),
      ents = (\<lambda>text. Some []),
      set_iter = (\<lambda>xs. remdups (rev xs))\<rparr>"

definition demo_env :: "int env" where
  "demo_env =
     \<lparr>geocode = (\<lambda>h q.
         if q = ''Gianyar, Bali, Indonesia'' then Found (-8) 115 ''Gianyar, Bali, Indonesia''
         else if q = ''Bali, Indonesia'' then Found (-9) 116 ''Bali, Indonesia''
         else NoResult),
      nlp = demo_nlp,
      float_truthy = (\<lambda>x. x \<noteq> 0),
      float_str = (\<lambda>x. ''0.0'')\<rparr>"

definition down_env :: "int env" where
  "down_env =
     \<lparr>geocode = (\<lambda>h q. Raises),
      nlp = demo_nlp,
      float_truthy = (\<lambda>x. x \<noteq> 0),
      float_str = (\<lambda>x. ''0.0'')\<rparr>"

definition demo_feature :: "int feature" where
  "demo_feature =
     \<lparr>properties = [''content'' \<mapsto> JStr ''Banjir di desa Kuta dan kota Ubud'',
                     ''location_name'' \<mapsto> JStr ''Gianyar''],
      geometry = None\<rparr>"

definition demo_attempts :: "string list" where
  "demo_attempts = query_attempts [''Ubud''] (Some ''Gianyar'')"

definition once :: "int run_state" where
  "once = snd (try_queries demo_env [''Ubud''] (Some ''Gianyar'') initial_state demo_attempts)"

definition twice :: "int run_state" where
  "twice = snd (try_queries demo_env [''Ubud''] (Some ''Gianyar'') once demo_attempts)"


definition mb_title :: "mb_response \<Rightarrow> string" where
  "mb_title r = py_strip (text_or_empty (art_headline (ms_page r)))"

definition mb_body :: "mb_response \<Rightarrow> string" where
  "mb_body r = py_strip (text_or_empty (art_main (ms_page r)))"

text \<open>
  Sample data for the adapters: a date helper that raises on the empty string and returns
  otherwise, an empty page, an article page whose heading is empty and whose body is blank,
  a full article page, a site whose first address redirects to the article, one that
  redirects twice, a search with two result pages, and result pages of the rendered-HTML
  adapter.
\<close>

definition demo_cnn :: cnn_env where
  "demo_cnn = \<lparr>quote_plus = (\<lambda>s. s),
               indo_to_datetime = (\<lambda>s. if s = [] then Raised else Returned (Some s))\<rparr>"

definition article_meta :: cnn_meta where
  "article_meta = \<lparr>m_keyword = ''banjir'', m_source = ''cnnindonesia.com'', m_start = Some 10\<rparr>"

definition no_page :: cnn_page where
  "no_page = \<lparr>pg_location = None, pg_json = None, pg_detail_text = None, pg_h1 = None,
               pg_date = None, pg_author = None\<rparr>"

definition blank_article :: cnn_page where
  "blank_article = \<lparr>pg_location = None, pg_json = None, pg_detail_text = Some '' '',
                     pg_h1 = Some [], pg_date = Some ''Senin, 01 Jan 2024 10:00 WIB'',
                     pg_author = None\<rparr>"

definition story_page :: cnn_page where
  "story_page = \<lparr>pg_location = None, pg_json = None,
                  pg_detail_text = Some ''Banjir di desa Kuta'', pg_h1 = Some ''Banjir'',
                  pg_date = Some ''Senin, 01 Jan 2024 10:00 WIB'', pg_author = Some ''Redaksi''\<rparr>"

definition moved_to :: "string \<Rightarrow> cnn_page" where
  "moved_to target = no_page\<lparr>pg_location := Some target\<rparr>"

definition blank_response :: cnn_response where
  "blank_response = \<lparr>rs_url = ''https://www.cnnindonesia.com/a'', rs_meta = article_meta,
                      rs_page = blank_article\<rparr>"

definition story_response :: cnn_response where
  "story_response = \<lparr>rs_url = ''https://www.cnnindonesia.com/b'', rs_meta = article_meta,
                      rs_page = story_page\<rparr>"

definition moved_site :: "string \<Rightarrow> cnn_page" where
  "moved_site url =
     (if url = ''https://www.cnnindonesia.com/a'' then moved_to ''https://www.cnnindonesia.com/b''
      else if url = ''https://www.cnnindonesia.com/b'' then story_page
      else no_page)"

definition relay_site :: "string \<Rightarrow> cnn_page" where
  "relay_site url =
     (if url = ''https://www.cnnindonesia.com/a'' then moved_to ''https://www.cnnindonesia.com/b''
      else if url = ''https://www.cnnindonesia.com/b'' then moved_to ''https://www.cnnindonesia.com/c''
      else if url = ''https://www.cnnindonesia.com/c'' then story_page
      else no_page)"

definition moved_hops :: "nat \<Rightarrow> string" where
  "moved_hops i = (if i = 0 then ''https://www.cnnindonesia.com/a''
                   else ''https://www.cnnindonesia.com/b'')"

definition article_request :: cnn_request where
  "article_request = \<lparr>rq_url = ''https://www.cnnindonesia.com/a'', rq_callback = ParseArticle,
                       rq_meta = article_meta\<rparr>"

definition followed_urls :: "(cnn_request list \<times> cnn_item list) option \<Rightarrow> string list" where
  "followed_urls r = (case r of None \<Rightarrow> [] | Some (followed, items) \<Rightarrow> map rq_url followed)"

definition record_links :: "(cnn_request list \<times> cnn_item list) option \<Rightarrow> string list" where
  "record_links r = (case r of None \<Rightarrow> [] | Some (followed, items) \<Rightarrow> map it_link items)"

definition hop :: "cnn_meta \<Rightarrow> string \<Rightarrow> cnn_request" where
  "hop meta url = \<lparr>rq_url = url, rq_callback = ParseArticle, rq_meta = meta\<rparr>"




definition mb_demo :: mb_env where
  "mb_demo = \<lparr>urljoin = (\<lambda>base href. href), has_date_path = (\<lambda>href. False),
               mb_indo_to_datetime = (\<lambda>s. Returned (Some s)),
               string_to_datetime = (\<lambda>s. Returned (Some s))\<rparr>"

definition mb_demo_meta :: mb_meta where
  "mb_demo_meta = \<lparr>mb_keyword = Some ''banjir'', mb_source = Some ''mongabay.co.id'',
                    mb_playwright = True, publish_date_override = None, author_override = None\<rparr>"

definition mb_story :: mb_response where
  "mb_story =
     \<lparr>ms_url = ''https://www.mongabay.co.id/2024/01/01/banjir/'', ms_meta = mb_demo_meta,
      ms_page = \<lparr>sel_post_news = [], sel_article = [], sel_post = [], sel_page_numbers = [],
                  sel_next = [], sel_anchors = [], art_headline = Some '' Banjir '',
                  art_main = None, art_meta_a = None, art_meta_text = None\<rparr>\<rparr>"



definition relative_moved :: cnn_response where
  "relative_moved = \<lparr>rs_url = ''https://www.cnnindonesia.com/a'', rs_meta = article_meta,
                      rs_page = moved_to ''/nasional/banjir''\<rparr>"






text \<open>A feature whose cleaned text is a number.\<close>

definition numeric_feature :: "int feature" where
  "numeric_feature = \<lparr>properties = [''cleaned_content'' \<mapsto> JNum 1], geometry = None\<rparr>"

text \<open>
  The texts of the tiers can be told apart: no candidate occurs in the query of the region
  hint or in the last-resort query, and the hint does not occur in the last-resort query.
\<close>

definition tiers_apart :: "string list \<Rightarrow> string option \<Rightarrow> bool" where
  "tiers_apart candidates kabupaten \<longleftrightarrow>
     list_all (\<lambda>c. \<not> py_in c ''Bali, Indonesia'' \<and>
                    (str_truthy kabupaten \<longrightarrow> \<not> py_in c (the kabupaten @ '', Bali, Indonesia'')))
       candidates \<and>
     (str_truthy kabupaten \<longrightarrow> \<not> py_in (the kabupaten) ''Bali, Indonesia'')"

definition demo_found :: "int resolved" where
  "demo_found = \<lparr>found_lat = -8, found_lon = 115, found_display = ''Gianyar, Bali, Indonesia'',
                  used_query = ''Gianyar, Bali, Indonesia'', used_source = ''kabupaten_fallback''\<rparr>"

text \<open>
  A sample text in which one name is matched twice, in two spellings, and the recogniser
  finds a third name and a date.
\<close>

definition ranked_nlp :: nlp_env where
  "ranked_nlp =
     \<lparr>findall = (\<lambda>pat text.
         if text = ''Desa Kuta banjir, kota Ubud aman, desa kuta lagi''
         then (if pat = ''desa'' then [''Desa Kuta'', ''desa kuta'']
               else if pat = ''kota'' then [''kota Ubud''] else [])
         else []),
      ents = (\<lambda>text. Some [(''Ubud'', ''GPE''), (''Senin'', ''DATE'')]),
      set_iter = (\<lambda>xs. remdups (rev xs))\<rparr>"

section \<open>Properties\<close>

lemma query_attempts_nonempty: "query_attempts cands kab \<noteq> []"
  by (simp add: query_attempts_def)

lemma query_attempts_last: "last (query_attempts cands kab) = ''Bali, Indonesia''"
  by (simp add: query_attempts_def)

lemma geocode_cached_cases [case_names empty hit fresh]:
  obtains "py_strip q = []" and "geocode_cached E s q = (None, s)"
  | r where "py_strip q \<noteq> []" and "geocode_cache s (py_strip q) = Some r"
      and "geocode_cached E s q = (r, s)"
  | "py_strip q \<noteq> []" and "geocode_cache s (py_strip q) = None"
      and "geocode_cached E s q =
           (answer (geocode E (calls s) (py_strip q)),
            s\<lparr>geocode_cache := (geocode_cache s)
                  (py_strip q \<mapsto> answer (geocode E (calls s) (py_strip q))),
              calls := calls s @ [py_strip q]\<rparr>)"
  unfolding geocode_cached_def Let_def answer_def
  by (cases "geocode E (calls s) (py_strip q)"; cases "geocode_cache s (py_strip q)";
      cases "py_strip q = []"; simp)

lemma lookup_cases [case_names cached call]:
  obtains r where "q \<in> tried_queries s" and "geocode_cache s q = Some r"
      and "lookup E s q = (r, s)"
  | r s' where "geocode_cached E s q = (r, s')"
      and "lookup E s q = (r, s'\<lparr>tried_queries := insert q (tried_queries s')\<rparr>)"
  unfolding lookup_def
  by (cases "geocode_cached E s q"; cases "q \<in> tried_queries s"; cases "geocode_cache s q";
      simp)

lemma geocode_cached_tried: "tried_queries (snd (geocode_cached E s q)) = tried_queries s"
  by (rule geocode_cached_cases [where q = q and E = E and s = s]) simp_all

lemma lookup_tried: "tried_queries (snd (lookup E s q)) = insert q (tried_queries s)"
proof (rule lookup_cases [where q = q and E = E and s = s])
  fix r assume "q \<in> tried_queries s" and "lookup E s q = (r, s)"
  then show ?thesis by auto
next
  fix r s' assume "geocode_cached E s q = (r, s')"
    and "lookup E s q = (r, s'\<lparr>tried_queries := insert q (tried_queries s')\<rparr>)"
  with geocode_cached_tried [of E s q] show ?thesis by simp
qed

lemma try_queries_miss:
  "lookup E s q = (None, s') \<Longrightarrow>
   try_queries E cands kab s (q # qs) = try_queries E cands kab s' qs"
  by simp

lemma try_queries_hit:
  "lookup E s q = (Some (lat, lon, display), s') \<Longrightarrow>
   try_queries E cands kab s (q # qs) =
     (Some \<lparr>found_lat = lat, found_lon = lon, found_display = display,
            used_query = q, used_source = source_of cands kab q\<rparr>, s')"
  by simp

lemma try_queries_tried_mono:
  "tried_queries s \<subseteq> tried_queries (snd (try_queries E cands kab s qs))"
proof (induction qs arbitrary: s)
  case Nil
  then show ?case by simp
next
  case (Cons q qs)
  obtain r s' where l: "lookup E s q = (r, s')" by (cases "lookup E s q")
  from lookup_tried [of E s q] l have t: "tried_queries s' = insert q (tried_queries s)" by simp
  show ?case
  proof (cases r)
    case None
    with l have "try_queries E cands kab s (q # qs) = try_queries E cands kab s' qs"
      by (simp only: try_queries_miss)
    with Cons.IH [of s'] t show ?thesis by auto
  next
    case (Some a)
    obtain lat lon display where "a = (lat, lon, display)" by (cases a)
    with Some l try_queries_hit [of E s q lat lon display s' cands kab qs] t
    show ?thesis by auto
  qed
qed

lemma try_queries_first_tried:
  assumes "qs \<noteq> []"
  shows "hd qs \<in> tried_queries (snd (try_queries E cands kab s qs))"
proof -
  from assms obtain q rest where qs: "qs = q # rest" by (cases qs) auto
  obtain r s' where l: "lookup E s q = (r, s')" by (cases "lookup E s q")
  from lookup_tried [of E s q] l have t: "q \<in> tried_queries s'" by simp
  show ?thesis
  proof (cases r)
    case None
    with l have "try_queries E cands kab s (q # rest) = try_queries E cands kab s' rest"
      by (simp only: try_queries_miss)
    with t try_queries_tried_mono [of s' E cands kab rest] qs show ?thesis by auto
  next
    case (Some a)
    obtain lat lon display where "a = (lat, lon, display)" by (cases a)
    with Some l try_queries_hit [of E s q lat lon display s' cands kab rest] t qs
    show ?thesis by auto
  qed
qed

lemma skip_feature_tried: "tried_queries (snd (skip_feature s f)) = tried_queries s"
  by (simp add: skip_feature_def Let_def)

lemma update_feature_tried: "tried_queries (snd (update_feature s f r)) = tried_queries s"
  by (simp add: update_feature_def Let_def)

lemma refine_feature_found:
  assumes "candidates_of E (cleaned_of E (properties f)) = Inr cands"
    and "try_queries E cands (kabupaten_of E (properties f)) s
           (query_attempts cands (kabupaten_of E (properties f))) = (Some r, s1)"
  shows "refine_feature E s f = update_feature s1 f r"
  using assms by (simp add: refine_feature_def Let_def)

lemma refine_feature_not_found:
  assumes "candidates_of E (cleaned_of E (properties f)) = Inr cands"
    and "try_queries E cands (kabupaten_of E (properties f)) s
           (query_attempts cands (kabupaten_of E (properties f))) = (None, s1)"
  shows "refine_feature E s f = skip_feature s1 f"
  using assms by (simp add: refine_feature_def Let_def)

lemma refine_feature_error:
  assumes "candidates_of E (cleaned_of E (properties f)) = Inl e"
  shows "refine_feature E s f = error_feature s f e"
  using assms by (simp add: refine_feature_def Let_def)

lemma refine_feature_tried:
  assumes c: "candidates_of E (cleaned_of E (properties f)) = Inr cands"
  shows "tried_queries (snd (refine_feature E s f)) =
         tried_queries (snd (try_queries E cands (kabupaten_of E (properties f)) s
             (query_attempts cands (kabupaten_of E (properties f)))))"
proof -
  let ?t = "try_queries E cands (kabupaten_of E (properties f)) s
             (query_attempts cands (kabupaten_of E (properties f)))"
  obtain res s1 where t: "?t = (res, s1)" by (cases ?t)
  show ?thesis
  proof (cases res)
    case None
    with t refine_feature_not_found [OF c, of s s1] show ?thesis
      by (simp add: skip_feature_tried)
  next
    case (Some r)
    with t refine_feature_found [OF c, of s r s1] show ?thesis
      by (simp add: update_feature_tried)
  qed
qed

text \<open>
  Claim C10. When a query succeeds, the geometry of the feature becomes a point whose
  coordinates are the longitude and the latitude, in this order, and they are the values
  written to the properties \<open>longitude\<close> and \<open>latitude\<close>. When every query fails, the
  geometry is left as it was and only the properties \<open>refine_status\<close>,
  \<open>refined_location\<close> and \<open>refine_source\<close> are written.
\<close>

theorem C10_geometry_frame:
  assumes "candidates_of E (cleaned_of E (properties f)) = Inr cands"
    and "try_queries E cands (kabupaten_of E (properties f)) s
           (query_attempts cands (kabupaten_of E (properties f))) = (res, s1)"
  shows "(\<forall>r. res = Some r \<longrightarrow>
            geometry (fst (refine_feature E s f)) =
              Some \<lparr>gtype = ''Point'', coordinates = [found_lon r, found_lat r]\<rparr> \<and>
            properties (fst (refine_feature E s f)) ''latitude'' = Some (JNum (found_lat r)) \<and>
            properties (fst (refine_feature E s f)) ''longitude'' = Some (JNum (found_lon r)))
       \<and> (res = None \<longrightarrow>
            geometry (fst (refine_feature E s f)) = geometry f \<and>
            (\<forall>k. k \<notin> {''refine_status'', ''refined_location'', ''refine_source''} \<longrightarrow>
                 properties (fst (refine_feature E s f)) k = properties f k))"
proof (intro conjI allI impI)
  fix r assume "res = Some r"
  with assms have u: "refine_feature E s f = update_feature s1 f r"
    by (simp add: refine_feature_found)
  show "geometry (fst (refine_feature E s f)) =
          Some \<lparr>gtype = ''Point'', coordinates = [found_lon r, found_lat r]\<rparr>"
    by (simp add: u update_feature_def Let_def)
  show "properties (fst (refine_feature E s f)) ''latitude'' = Some (JNum (found_lat r))"
    by (simp add: u update_feature_def Let_def)
  show "properties (fst (refine_feature E s f)) ''longitude'' = Some (JNum (found_lon r))"
    by (simp add: u update_feature_def Let_def)
next
  assume "res = None"
  with assms have u: "refine_feature E s f = skip_feature s1 f"
    by (simp add: refine_feature_not_found)
  show "geometry (fst (refine_feature E s f)) = geometry f"
    by (simp add: u skip_feature_def Let_def)
  fix k :: string
  assume "k \<notin> {''refine_status'', ''refined_location'', ''refine_source''}"
  then show "properties (fst (refine_feature E s f)) k = properties f k"
    by (simp add: u skip_feature_def Let_def)
qed

lemma geocode_cached_counters:
  "updated (snd (geocode_cached E s q)) = updated s \<and>
   skipped (snd (geocode_cached E s q)) = skipped s \<and>
   errors (snd (geocode_cached E s q)) = errors s \<and>
   csv_rows (snd (geocode_cached E s q)) = csv_rows s"
  by (rule geocode_cached_cases [where q = q and E = E and s = s]) simp_all

lemma lookup_counters:
  "updated (snd (lookup E s q)) = updated s \<and>
   skipped (snd (lookup E s q)) = skipped s \<and>
   errors (snd (lookup E s q)) = errors s \<and>
   csv_rows (snd (lookup E s q)) = csv_rows s"
proof (rule lookup_cases [where q = q and E = E and s = s])
  fix r assume "lookup E s q = (r, s)"
  then show ?thesis by simp
next
  fix r s' assume "geocode_cached E s q = (r, s')"
    and "lookup E s q = (r, s'\<lparr>tried_queries := insert q (tried_queries s')\<rparr>)"
  with geocode_cached_counters [of E s q] show ?thesis by simp
qed

lemma try_queries_counters:
  "updated (snd (try_queries E cands kab s qs)) = updated s \<and>
   skipped (snd (try_queries E cands kab s qs)) = skipped s \<and>
   errors (snd (try_queries E cands kab s qs)) = errors s \<and>
   csv_rows (snd (try_queries E cands kab s qs)) = csv_rows s"
proof (induction qs arbitrary: s)
  case Nil
  then show ?case by simp
next
  case (Cons q qs)
  obtain r s' where l: "lookup E s q = (r, s')" by (cases "lookup E s q")
  with lookup_counters [of E s q]
  have c: "updated s' = updated s \<and> skipped s' = skipped s \<and> errors s' = errors s \<and>
           csv_rows s' = csv_rows s" by simp
  show ?case
  proof (cases r)
    case None
    with l have "try_queries E cands kab s (q # qs) = try_queries E cands kab s' qs"
      by (simp only: try_queries_miss)
    with Cons.IH [of s'] c show ?thesis by simp
  next
    case (Some a)
    obtain lat lon display where "a = (lat, lon, display)" by (cases a)
    with Some l try_queries_hit [of E s q lat lon display s' cands kab qs] c
    show ?thesis by simp
  qed
qed

lemma no_coordinate_step:
  assumes n: "no_coordinate E s (q # qs)"
  shows "\<exists>s'. lookup E s q = (None, s') \<and> no_coordinate E s' qs"
proof -
  from n have g: "\<And>h la lo ad. geocode E h (py_strip q) \<noteq> Found la lo ad"
    and c1: "\<And>r. geocode_cache s q \<noteq> Some (Some r)"
    and c2: "\<And>r. geocode_cache s (py_strip q) \<noteq> Some (Some r)"
    and rest: "no_coordinate E s qs"
    by (auto simp: no_coordinate_def)
  have a: "answer (geocode E (calls s) (py_strip q)) = None"
    using g [of "calls s"] by (cases "geocode E (calls s) (py_strip q)") (auto simp: answer_def)
  have gc: "\<exists>s1. geocode_cached E s q = (None, s1) \<and> no_coordinate E s1 qs"
  proof (rule geocode_cached_cases [where q = q and E = E and s = s])
    assume "geocode_cached E s q = (None, s)"
    with rest show ?thesis by simp
  next
    fix r assume "geocode_cache s (py_strip q) = Some r" and "geocode_cached E s q = (r, s)"
    with c2 [of "the r"] rest show ?thesis by (cases r) auto
  next
    assume "geocode_cached E s q =
           (answer (geocode E (calls s) (py_strip q)),
            s\<lparr>geocode_cache := (geocode_cache s)
                  (py_strip q \<mapsto> answer (geocode E (calls s) (py_strip q))),
              calls := calls s @ [py_strip q]\<rparr>)"
    with a rest show ?thesis by (auto simp: no_coordinate_def)
  qed
  show ?thesis
  proof (rule lookup_cases [where q = q and E = E and s = s])
    fix r assume "geocode_cache s q = Some r" and "lookup E s q = (r, s)"
    with c1 [of "the r"] rest show ?thesis by (cases r) auto
  next
    fix r s' assume gq: "geocode_cached E s q = (r, s')"
      and l: "lookup E s q = (r, s'\<lparr>tried_queries := insert q (tried_queries s')\<rparr>)"
    from gc gq have "r = None" and "no_coordinate E s' qs" by auto
    with l show ?thesis by (auto simp: no_coordinate_def)
  qed
qed

lemma try_queries_none:
  "no_coordinate E s qs \<Longrightarrow> fst (try_queries E cands kab s qs) = None"
proof (induction qs arbitrary: s)
  case Nil
  then show ?case by simp
next
  case (Cons q qs)
  from no_coordinate_step [OF Cons.prems] obtain s'
    where l: "lookup E s q = (None, s')" and n: "no_coordinate E s' qs" by blast
  from l have "try_queries E cands kab s (q # qs) = try_queries E cands kab s' qs"
    by (simp only: try_queries_miss)
  with Cons.IH [OF n] show ?case by simp
qed

text \<open>
  Claim C8. When no query of the list can yield a coordinate, the resolution returns no
  result, the feature is counted as skipped and not as an error or an update, its
  provenance and refined location are null, its coordinates are left alone, and the row of
  the backup has null coordinates and provenance.
\<close>

theorem C8_no_result_is_skipped:
  assumes c: "candidates_of E (cleaned_of E (properties f)) = Inr cands"
    and n: "no_coordinate E s (query_attempts cands (kabupaten_of E (properties f)))"
  shows "fst (try_queries E cands (kabupaten_of E (properties f)) s
                (query_attempts cands (kabupaten_of E (properties f)))) = None \<and>
         skipped (snd (refine_feature E s f)) = skipped s + 1 \<and>
         errors (snd (refine_feature E s f)) = errors s \<and>
         updated (snd (refine_feature E s f)) = updated s \<and>
         properties (fst (refine_feature E s f)) ''refine_status'' =
           Some (JStr ''no_geocode_found'') \<and>
         properties (fst (refine_feature E s f)) ''refine_source'' = Some JNull \<and>
         properties (fst (refine_feature E s f)) ''refined_location'' = Some JNull \<and>
         properties (fst (refine_feature E s f)) ''latitude'' = properties f ''latitude'' \<and>
         properties (fst (refine_feature E s f)) ''longitude'' = properties f ''longitude'' \<and>
         last (csv_rows (snd (refine_feature E s f))) ''refined_lat'' = Some JNull \<and>
         last (csv_rows (snd (refine_feature E s f))) ''refined_lon'' = Some JNull \<and>
         last (csv_rows (snd (refine_feature E s f))) ''refine_source'' = Some JNull"
proof -
  let ?t = "try_queries E cands (kabupaten_of E (properties f)) s
              (query_attempts cands (kabupaten_of E (properties f)))"
  have none: "fst ?t = None" by (rule try_queries_none [OF n])
  then obtain s1 where t: "?t = (None, s1)" by (cases ?t) auto
  have u: "refine_feature E s f = skip_feature s1 f"
    by (rule refine_feature_not_found [OF c t])
  from try_queries_counters [of E cands "kabupaten_of E (properties f)" s
      "query_attempts cands (kabupaten_of E (properties f))"] t
  have k: "updated s1 = updated s" "skipped s1 = skipped s" "errors s1 = errors s" by simp_all
  show ?thesis
    using none k by (simp add: u skip_feature_def csv_row_def Let_def)
qed

lemma geocode_cached_inv:
  assumes "cache_inv s"
  shows "cache_inv (snd (geocode_cached E s q))"
proof (rule geocode_cached_cases [where q = q and E = E and s = s])
  assume "geocode_cached E s q = (None, s)"
  with assms show ?thesis by simp
next
  fix r assume "geocode_cached E s q = (r, s)"
  with assms show ?thesis by simp
next
  assume "geocode_cache s (py_strip q) = None"
    and "geocode_cached E s q =
           (answer (geocode E (calls s) (py_strip q)),
            s\<lparr>geocode_cache := (geocode_cache s)
                  (py_strip q \<mapsto> answer (geocode E (calls s) (py_strip q))),
              calls := calls s @ [py_strip q]\<rparr>)"
  with assms show ?thesis by (auto simp: cache_inv_def)
qed

lemma lookup_inv:
  assumes "cache_inv s"
  shows "cache_inv (snd (lookup E s q))"
proof (rule lookup_cases [where q = q and E = E and s = s])
  fix r assume "lookup E s q = (r, s)"
  with assms show ?thesis by simp
next
  fix r s' assume "geocode_cached E s q = (r, s')"
    and "lookup E s q = (r, s'\<lparr>tried_queries := insert q (tried_queries s')\<rparr>)"
  with geocode_cached_inv [OF assms, of E q] show ?thesis by (simp add: cache_inv_def)
qed

lemma try_queries_inv:
  "cache_inv s \<Longrightarrow> cache_inv (snd (try_queries E cands kab s qs))"
proof (induction qs arbitrary: s)
  case Nil
  then show ?case by simp
next
  case (Cons q qs)
  obtain r s' where l: "lookup E s q = (r, s')" by (cases "lookup E s q")
  with lookup_inv [OF Cons.prems, of E q] have i: "cache_inv s'" by simp
  show ?case
  proof (cases r)
    case None
    with l have "try_queries E cands kab s (q # qs) = try_queries E cands kab s' qs"
      by (simp only: try_queries_miss)
    with Cons.IH [OF i] show ?thesis by simp
  next
    case (Some a)
    obtain lat lon display where "a = (lat, lon, display)" by (cases a)
    with Some l try_queries_hit [of E s q lat lon display s' cands kab qs] i
    show ?thesis by simp
  qed
qed

lemma demo_cleaned:
  "cleaned_of demo_env (properties demo_feature) = JStr ''Banjir di desa Kuta dan kota Ubud''"
  by (simp add: cleaned_of_def demo_feature_def py_or_def py_truthy_def get_prop_def)

lemma demo_kab: "kabupaten_of demo_env (properties demo_feature) = Some ''Gianyar''"
  by (simp add: kabupaten_of_def kabupaten_raw_def demo_feature_def py_truthy_def get_prop_def
      py_str_def py_strip_def py_isspace_def drop_commas_def)

lemma demo_extract:
  "extract_locations demo_nlp ''Banjir di desa Kuta dan kota Ubud'' = Some [''Kota Ubud'', ''Desa Kuta'']"
  by (simp add: extract_locations_def demo_nlp_def rule_matches_def LOCATION_PATTERNS_def
      ner_matches_def normalize_def rank_locations_def py_sorted_reverse_def py_title_def
      py_strip_def py_isspace_def is_upper_def is_lower_def to_upper_def to_lower_def)

lemma demo_cands:
  "candidates_of demo_env (JStr ''Banjir di desa Kuta dan kota Ubud'') = Inr [''Kota Ubud'', ''Desa Kuta'']"
  by (simp add: candidates_of_def demo_extract demo_env_def py_strip_def py_isspace_def
     py_lower_def is_upper_def to_lower_def)

lemma geocode_cached_calls: "prefix (calls s) (calls (snd (geocode_cached E s q)))"
  by (rule geocode_cached_cases [where q = q and E = E and s = s]) simp_all

lemma lookup_calls: "prefix (calls s) (calls (snd (lookup E s q)))"
proof (rule lookup_cases [where q = q and E = E and s = s])
  fix r assume "lookup E s q = (r, s)"
  then show ?thesis by simp
next
  fix r s' assume "geocode_cached E s q = (r, s')"
    and "lookup E s q = (r, s'\<lparr>tried_queries := insert q (tried_queries s')\<rparr>)"
  with geocode_cached_calls [of s E q] show ?thesis by simp
qed

lemma try_queries_calls: "prefix (calls s) (calls (snd (try_queries E cands kab s qs)))"
proof (induction qs arbitrary: s)
  case Nil
  then show ?case by simp
next
  case (Cons q qs)
  obtain r s' where l: "lookup E s q = (r, s')" by (cases "lookup E s q")
  with lookup_calls [of s E q] have p: "prefix (calls s) (calls s')" by simp
  show ?case
  proof (cases r)
    case None
    with l have "try_queries E cands kab s (q # qs) = try_queries E cands kab s' qs"
      by (simp only: try_queries_miss)
    with Cons.IH [of s'] p show ?thesis by (auto intro: prefix_order.trans)
  next
    case (Some a)
    obtain lat lon display where "a = (lat, lon, display)" by (cases a)
    with Some l try_queries_hit [of E s q lat lon display s' cands kab qs] p
    show ?thesis by simp
  qed
qed

lemma geocode_cached_hit:
  assumes "py_strip q \<noteq> []" and "geocode_cache s (py_strip q) = Some r"
  shows "geocode_cached E s q = (r, s)"
  using assms by (simp add: geocode_cached_def)

lemma geocode_cached_call_only_on_miss:
  assumes "calls (snd (geocode_cached E s q)) \<noteq> calls s"
  shows "geocode_cache s (py_strip q) = None"
  using assms by (rule_tac geocode_cached_cases [where q = q and E = E and s = s]) simp_all

lemma geocode_cached_miss_cached:
  assumes "py_strip q \<noteq> []" and "geocode_cache s (py_strip q) = None"
    and "answer (geocode E (calls s) (py_strip q)) = None"
  shows "fst (geocode_cached E s q) = None \<and>
         geocode_cache (snd (geocode_cached E s q)) (py_strip q) = Some None"
  using assms by (rule_tac geocode_cached_cases [where q = q and E = E and s = s]) simp_all

text \<open>
  Claim C4. Resolving the same list twice, from a state that satisfies the invariant of the
  cache, sends no string to the geocoder twice, also counting the calls made before. A
  string found in the cache is answered from it with the state, and so the log of calls,
  unchanged; the geocoder is called only for a string the cache lacks; and a string for
  which it raises or finds nothing is stored as a miss.
\<close>

theorem C4_cache_idempotence:
  assumes "cache_inv s"
    and "try_queries E cands kab s qs = (r1, s1)"
    and "try_queries E cands kab s1 qs = (r2, s2)"
  shows "distinct (calls s2) \<and> prefix (calls s) (calls s2) \<and>
         (py_strip q \<noteq> [] \<and> geocode_cache t (py_strip q) = Some r \<longrightarrow>
            geocode_cached E t q = (r, t)) \<and>
         (calls (snd (geocode_cached E t q')) \<noteq> calls t \<longrightarrow>
            geocode_cache t (py_strip q') = None) \<and>
         (py_strip q' \<noteq> [] \<and> geocode_cache t (py_strip q') = None \<and>
          answer (geocode E (calls t) (py_strip q')) = None \<longrightarrow>
            fst (geocode_cached E t q') = None \<and>
            geocode_cache (snd (geocode_cached E t q')) (py_strip q') = Some None)"
proof (intro conjI impI)
  from try_queries_inv [OF assms(1), of E cands kab qs] assms(2)
  have i1: "cache_inv s1" by simp
  from try_queries_inv [OF i1, of E cands kab qs] assms(3)
  show "distinct (calls s2)" by (simp add: cache_inv_def)
  from try_queries_calls [of s E cands kab qs] assms(2)
  have "prefix (calls s) (calls s1)" by simp
  moreover from try_queries_calls [of s1 E cands kab qs] assms(3)
  have "prefix (calls s1) (calls s2)" by simp
  ultimately show "prefix (calls s) (calls s2)" by (rule prefix_order.trans)
next
  assume "py_strip q \<noteq> [] \<and> geocode_cache t (py_strip q) = Some r"
  then show "geocode_cached E t q = (r, t)" by (simp add: geocode_cached_hit)
next
  assume "calls (snd (geocode_cached E t q')) \<noteq> calls t"
  then show "geocode_cache t (py_strip q') = None" by (rule geocode_cached_call_only_on_miss)
next
  assume a: "py_strip q' \<noteq> [] \<and> geocode_cache t (py_strip q') = None \<and>
          answer (geocode E (calls t) (py_strip q')) = None"
  then show "fst (geocode_cached E t q') = None" by (simp add: geocode_cached_miss_cached)
  from a show "geocode_cache (snd (geocode_cached E t q')) (py_strip q') = Some None"
    by (simp add: geocode_cached_miss_cached)
qed

lemmas demo_simps =
  lookup_def geocode_cached_def query_attempts_def source_of_def str_truthy_def
  py_strip_def py_isspace_def initial_state_def demo_env_def down_env_def answer_def Let_def

lemma once_calls:
  "calls once = [''Ubud, Gianyar, Bali, Indonesia'', ''Ubud, Bali, Indonesia'',
                 ''Gianyar, Bali, Indonesia'']"
  by (simp add: once_def demo_attempts_def demo_simps)

lemma once_cache_hit:
  "geocode_cache once ''Gianyar, Bali, Indonesia'' = Some (Some (-8, 115, ''Gianyar, Bali, Indonesia''))"
  by (simp add: once_def demo_attempts_def demo_simps)

lemma once_cache_none:
  "geocode_cache once ''Kuta, Bali, Indonesia'' = None"
  by (simp add: once_def demo_attempts_def demo_simps)

lemma twice_calls: "calls twice = calls once"
  by (simp add: twice_def once_def demo_attempts_def demo_simps)

lemma demo_attempts_feature:
  "query_attempts [''Kota Ubud'', ''Desa Kuta''] (Some ''Gianyar'') =
     [''Kota Ubud, Gianyar, Bali, Indonesia'', ''Desa Kuta, Gianyar, Bali, Indonesia'',
      ''Kota Ubud, Bali, Indonesia'', ''Desa Kuta, Bali, Indonesia'',
      ''Gianyar, Bali, Indonesia'', ''Bali, Indonesia'']"
  by (simp add: query_attempts_def str_truthy_def)

lemma demo_resolved:
  "fst (try_queries demo_env [''Kota Ubud'', ''Desa Kuta''] (Some ''Gianyar'') initial_state
          (query_attempts [''Kota Ubud'', ''Desa Kuta''] (Some ''Gianyar''))) =
   Some \<lparr>found_lat = -8, found_lon = 115, found_display = ''Gianyar, Bali, Indonesia'',
         used_query = ''Gianyar, Bali, Indonesia'', used_source = ''kabupaten_fallback''\<rparr>"
  by (simp add: demo_simps)

lemma down_cands:
  "candidates_of down_env (cleaned_of down_env (properties demo_feature)) =
     Inr [''Kota Ubud'', ''Desa Kuta'']"
  by (simp add: cleaned_of_def demo_feature_def py_or_def py_truthy_def get_prop_def
      candidates_of_def demo_extract down_env_def py_strip_def py_isspace_def
      py_lower_def is_upper_def to_lower_def)

lemma down_kab: "kabupaten_of down_env (properties demo_feature) = Some ''Gianyar''"
  by (simp add: kabupaten_of_def kabupaten_raw_def demo_feature_def py_truthy_def get_prop_def
      py_str_def py_strip_def py_isspace_def drop_commas_def)

lemma down_no_coordinate:
  "no_coordinate down_env initial_state
     (query_attempts [''Kota Ubud'', ''Desa Kuta''] (Some ''Gianyar''))"
  by (simp add: no_coordinate_def down_env_def initial_state_def)

theorem C8_no_result_is_skipped_witness:
  "candidates_of down_env (cleaned_of down_env (properties demo_feature)) =
     Inr [''Kota Ubud'', ''Desa Kuta''] \<and>
   no_coordinate down_env initial_state
     (query_attempts [''Kota Ubud'', ''Desa Kuta'']
        (kabupaten_of down_env (properties demo_feature))) \<and>
   skipped (snd (refine_feature down_env initial_state demo_feature)) = 1 \<and>
   errors (snd (refine_feature down_env initial_state demo_feature)) = 0 \<and>
   properties (fst (refine_feature down_env initial_state demo_feature)) ''refine_source'' =
     Some JNull"
proof -
  have c: "candidates_of down_env (cleaned_of down_env (properties demo_feature)) =
     Inr [''Kota Ubud'', ''Desa Kuta'']" by (rule down_cands)
  have n: "no_coordinate down_env initial_state
     (query_attempts [''Kota Ubud'', ''Desa Kuta'']
        (kabupaten_of down_env (properties demo_feature)))"
    using down_no_coordinate by (simp add: down_kab)
  from C8_no_result_is_skipped [OF c n] c n show ?thesis
    by (simp add: initial_state_def)
qed

theorem C10_geometry_frame_witness:
  "geometry (fst (refine_feature demo_env initial_state demo_feature)) =
     Some \<lparr>gtype = ''Point'', coordinates = [115, -8]\<rparr> \<and>
   properties (fst (refine_feature demo_env initial_state demo_feature)) ''latitude'' =
     Some (JNum (-8)) \<and>
   properties (fst (refine_feature demo_env initial_state demo_feature)) ''longitude'' =
     Some (JNum 115) \<and>
   geometry (fst (refine_feature down_env initial_state demo_feature)) = geometry demo_feature \<and>
   properties (fst (refine_feature down_env initial_state demo_feature)) ''content'' =
     properties demo_feature ''content''"
proof -
  let ?c = "[''Kota Ubud'', ''Desa Kuta'']"
  let ?k = "Some ''Gianyar''"
  let ?t = "try_queries demo_env ?c ?k initial_state (query_attempts ?c ?k)"
  let ?d = "try_queries down_env ?c ?k initial_state (query_attempts ?c ?k)"
  have c1: "candidates_of demo_env (cleaned_of demo_env (properties demo_feature)) = Inr ?c"
    using demo_cands demo_cleaned by simp
  have t1: "try_queries demo_env ?c (kabupaten_of demo_env (properties demo_feature))
              initial_state
              (query_attempts ?c (kabupaten_of demo_env (properties demo_feature))) =
            (fst ?t, snd ?t)"
    by (simp add: demo_kab)
  have c2: "candidates_of down_env (cleaned_of down_env (properties demo_feature)) = Inr ?c"
    by (rule down_cands)
  have t2: "try_queries down_env ?c (kabupaten_of down_env (properties demo_feature))
              initial_state
              (query_attempts ?c (kabupaten_of down_env (properties demo_feature))) =
            (fst ?d, snd ?d)"
    by (simp add: down_kab)
  have d: "fst ?d = None"
    by (rule try_queries_none [OF down_no_coordinate])
  from C10_geometry_frame [OF c1 t1] demo_resolved C10_geometry_frame [OF c2 t2] d
  show ?thesis by simp
qed

theorem C4_cache_idempotence_witness:
  "cache_inv (initial_state :: int run_state) \<and>
   distinct (calls twice) \<and> prefix (calls (initial_state :: int run_state)) (calls twice) \<and>
   geocode_cache once (py_strip ''Gianyar, Bali, Indonesia'') =
     Some (Some (-8, 115, ''Gianyar, Bali, Indonesia'')) \<and>
   geocode_cached demo_env once ''Gianyar, Bali, Indonesia'' =
     (Some (-8, 115, ''Gianyar, Bali, Indonesia''), once) \<and>
   geocode_cache once (py_strip ''Kuta, Bali, Indonesia'') = None \<and>
   answer (geocode demo_env (calls once) (py_strip ''Kuta, Bali, Indonesia'')) = None \<and>
   fst (geocode_cached demo_env once ''Kuta, Bali, Indonesia'') = None \<and>
   geocode_cache (snd (geocode_cached demo_env once ''Kuta, Bali, Indonesia''))
     (py_strip ''Kuta, Bali, Indonesia'') = Some None"
proof -
  let ?c = "[''Ubud'']"
  let ?k = "Some ''Gianyar''"
  have i: "cache_inv (initial_state :: int run_state)"
    by (simp add: cache_inv_def initial_state_def)
  have t1: "try_queries demo_env ?c ?k initial_state demo_attempts =
             (fst (try_queries demo_env ?c ?k initial_state demo_attempts), once)"
    by (simp add: once_def)
  have t2: "try_queries demo_env ?c ?k once demo_attempts =
             (fst (try_queries demo_env ?c ?k once demo_attempts), twice)"
    by (simp add: twice_def)
  have s1: "py_strip ''Gianyar, Bali, Indonesia'' = ''Gianyar, Bali, Indonesia''"
    by (simp add: py_strip_def py_isspace_def)
  have s2: "py_strip ''Kuta, Bali, Indonesia'' = ''Kuta, Bali, Indonesia''"
    by (simp add: py_strip_def py_isspace_def)
  have a: "answer (geocode demo_env (calls once) ''Kuta, Bali, Indonesia'') = None"
    by (simp add: answer_def demo_env_def)
  from C4_cache_idempotence [OF i t1 t2, of "''Gianyar, Bali, Indonesia''" once
      "Some (-8, 115, ''Gianyar, Bali, Indonesia'')" "''Kuta, Bali, Indonesia''"]
    i s1 s2 a once_cache_hit once_cache_none
  show ?thesis by simp
qed

lemma py_strip_empty_iff: "py_strip s = [] \<longleftrightarrow> (\<forall>c \<in> set s. py_isspace c)"
proof
  assume "py_strip s = []"
  then have "dropWhile py_isspace (rev (dropWhile py_isspace s)) = []"
    by (simp add: py_strip_def)
  then have a: "\<forall>c \<in> set (dropWhile py_isspace s). py_isspace c"
    by (simp only: dropWhile_eq_Nil_conv set_rev)
  have "dropWhile py_isspace s = []"
  proof (rule ccontr)
    assume n: "dropWhile py_isspace s \<noteq> []"
    then have "\<not> py_isspace (hd (dropWhile py_isspace s))" by (rule hd_dropWhile)
    moreover from n have "hd (dropWhile py_isspace s) \<in> set (dropWhile py_isspace s)"
      by (rule hd_in_set)
    ultimately show False using a by blast
  qed
  then show "\<forall>c \<in> set s. py_isspace c" unfolding dropWhile_eq_Nil_conv .
next
  assume "\<forall>c \<in> set s. py_isspace c"
  then have "dropWhile py_isspace s = []" unfolding dropWhile_eq_Nil_conv .
  then show "py_strip s = []" by (simp only: py_strip_def rev.simps dropWhile.simps)
qed

lemma py_in_intro: "py_in x (a @ x @ b)"
proof (induction a)
  case Nil
  show ?case
  proof (cases "x @ b")
    case Nil
    then show ?thesis by simp
  next
    case (Cons c rest)
    have "prefix x (x @ b)" by simp
    then have "prefix x (c # rest)" unfolding Cons .
    then have "py_in x (c # rest)" by simp
    then show ?thesis using Cons by simp
  qed
next
  case (Cons c a)
  then show ?case by simp
qed

lemma py_in_head: "py_in x (x @ b)"
  using py_in_intro [of x "[]" b] by simp

lemma cnn_content_nonempty: "cnn_content title author publish_date content \<noteq> []"
proof -
  have "\<not> py_isspace CHR ''j''" by (simp add: py_isspace_def)
  then show ?thesis
    unfolding cnn_content_def py_strip_empty_iff by auto
qed

lemma cnn_parse_item_content:
  "Item j \<in> set (fst (cnn_parse E r)) \<Longrightarrow> it_content j \<noteq> []"
  by (cases "pg_location (rs_page r)"; cases "pg_detail_text (rs_page r)";
      cases "indo_to_datetime E (text_or_empty (pg_date (rs_page r)))")
     (auto simp: cnn_parse_def Let_def cnn_content_nonempty split: if_splits)

lemma cnn_parse_redirect:
  assumes "pg_location (rs_page r) = Some target" and "has_scheme target"
  shows "cnn_parse E r =
           ([Req \<lparr>rq_url = target, rq_callback = ParseArticle, rq_meta = rs_meta r\<rparr>], None)"
  using assms by (simp add: cnn_parse_def)

lemma cnn_parse_no_scheme:
  assumes "pg_location (rs_page r) = Some target" and "\<not> has_scheme target"
  shows "cnn_parse E r = ([], Some ValueError)"
  using assms by (simp add: cnn_parse_def)

lemma cnn_parse_never_paginates: "requests_of ParseSearch (fst (cnn_parse E r)) = []"
  by (cases "pg_location (rs_page r)"; cases "pg_detail_text (rs_page r)";
      cases "indo_to_datetime E (text_or_empty (pg_date (rs_page r)))")
     (simp_all add: cnn_parse_def Let_def)

lemma mb_parse_nothing_iff: "mb_parse E r = [] \<longleftrightarrow> mb_title r = [] \<and> mb_body r = []"
  by (simp add: mb_parse_def mb_title_def mb_body_def Let_def)

lemma mb_parse_fields:
  "MItem i \<in> set (mb_parse E r) \<Longrightarrow> mi_title i = mb_title r \<and> mi_content i = mb_body r"
  by (auto simp: mb_parse_def mb_title_def mb_body_def Let_def split: if_splits)

lemma cnn_parse_items_iff:
  "items_of (fst (cnn_parse E r)) \<noteq> [] \<longleftrightarrow>
     pg_location (rs_page r) = None \<and> pg_detail_text (rs_page r) \<noteq> None \<and>
     indo_to_datetime E (text_or_empty (pg_date (rs_page r))) \<noteq> Raised"
  by (cases "pg_location (rs_page r)"; cases "pg_detail_text (rs_page r)";
      cases "indo_to_datetime E (text_or_empty (pg_date (rs_page r)))")
     (simp_all add: cnn_parse_def Let_def)

text \<open>
  Claim C7, as the two adapters have it. The rendered-HTML adapter emits nothing exactly
  when the stripped title and the stripped body are both empty, and a record it emits
  carries these two texts. The search-API adapter emits a record exactly when the response
  is no redirect, the node \<^verbatim>\<open>div.detail-text\<close> exists and the date helper returns, whatever
  the title and the text of the node; the content of its record is the labelled block, which
  is never empty.
\<close>

theorem C7_emission_policy:
  "(mb_parse E r = [] \<longleftrightarrow> mb_title r = [] \<and> mb_body r = []) \<and>
   (MItem i \<in> set (mb_parse E r) \<longrightarrow> mi_title i = mb_title r \<and> mi_content i = mb_body r) \<and>
   (items_of (fst (cnn_parse E' r')) \<noteq> [] \<longleftrightarrow>
      pg_location (rs_page r') = None \<and> pg_detail_text (rs_page r') \<noteq> None \<and>
      indo_to_datetime E' (text_or_empty (pg_date (rs_page r'))) \<noteq> Raised) \<and>
   (Item j \<in> set (fst (cnn_parse E' r')) \<longrightarrow> it_content j \<noteq> [])"
  using mb_parse_nothing_iff [of E r] mb_parse_fields [of i E r] cnn_parse_items_iff [of E' r']
    cnn_parse_item_content [of j E' r']
  by blast

lemma mb_story_parse:
  "mb_parse mb_demo mb_story =
     [MItem \<lparr>mi_title = ''Banjir'', mi_link = ''https://www.mongabay.co.id/2024/01/01/banjir/'',
             mi_content = [], mi_author = [], mi_publish_date = None,
             mi_keyword = Some ''banjir'', mi_source = Some ''mongabay.co.id''\<rparr>]"
  by (simp add: mb_parse_def mb_story_def mb_demo_def mb_demo_meta_def Let_def text_or_empty_def
      py_strip_def py_isspace_def date_truthy_def mb_publish_date_def)

lemma story_parse:
  "cnn_parse demo_cnn story_response =
     ([Item \<lparr>it_title = ''Banjir'', it_publish_date = Some ''Senin, 01 Jan 2024 10:00 WIB'',
             it_author = ''Redaksi'',
             it_content = cnn_content ''Banjir'' ''Redaksi'' ''Senin, 01 Jan 2024 10:00 WIB''
                            ''Banjir di desa Kuta'',
             it_keyword = ''banjir'', it_source = ''cnnindonesia.com'',
             it_link = ''https://www.cnnindonesia.com/b''\<rparr>], None)"
  by (simp add: cnn_parse_def story_response_def story_page_def demo_cnn_def article_meta_def
      Let_def text_or_empty_def py_strip_def py_isspace_def)

theorem C7_emission_policy_witness:
  "mb_title mb_story = ''Banjir'' \<and> mb_body mb_story = [] \<and>
   pg_detail_text (rs_page story_response) \<noteq> None \<and>
   cnn_content ''Banjir'' ''Redaksi'' ''Senin, 01 Jan 2024 10:00 WIB'' ''Banjir di desa Kuta'' \<noteq> []"
  using C7_emission_policy [of mb_demo mb_story
      "\<lparr>mi_title = ''Banjir'', mi_link = ''https://www.mongabay.co.id/2024/01/01/banjir/'',
        mi_content = [], mi_author = [], mi_publish_date = None,
        mi_keyword = Some ''banjir'', mi_source = Some ''mongabay.co.id''\<rparr>"
      demo_cnn story_response
      "\<lparr>it_title = ''Banjir'', it_publish_date = Some ''Senin, 01 Jan 2024 10:00 WIB'',
        it_author = ''Redaksi'',
        it_content = cnn_content ''Banjir'' ''Redaksi'' ''Senin, 01 Jan 2024 10:00 WIB''
                       ''Banjir di desa Kuta'',
        it_keyword = ''banjir'', it_source = ''cnnindonesia.com'',
        it_link = ''https://www.cnnindonesia.com/b''\<rparr>"]
  by (auto simp: mb_story_parse story_parse)

text \<open>
  The search-API adapter emits a record for a page with an empty heading, a well-formed
  date and a \<^verbatim>\<open>div.detail-text\<close> that holds only white space: the title of the record
  is empty and so is the stripped text of the node. The date helper of the sample raises on
  an empty date, which this page does not have.
\<close>

theorem C7_blank_article_emitted:
  "map it_title (items_of (fst (cnn_parse demo_cnn blank_response))) = [[]] \<and>
   text_or_empty (pg_h1 (rs_page blank_response)) = [] \<and>
   py_strip (text_or_empty (pg_detail_text (rs_page blank_response))) = [] \<and>
   indo_to_datetime demo_cnn [] = Raised"
  by (simp add: cnn_parse_def blank_response_def blank_article_def demo_cnn_def article_meta_def
      Let_def text_or_empty_def py_strip_def py_isspace_def)

lemma article_chain_hops:
  assumes "\<forall>i<m. pg_location (site (u i)) = Some (u (Suc i)) \<and> has_scheme (u (Suc i))"
    and "pg_location (site (u m)) = None"
    and "pg_detail_text (site (u m)) \<noteq> None"
    and "indo_to_datetime E (text_or_empty (pg_date (site (u m)))) \<noteq> Raised"
    and "rq_url rq = u 0"
    and "rq_callback rq = ParseArticle"
  shows "\<exists>item. article_chain E site (Suc m + n) rq =
            Some (map (\<lambda>i. hop (rq_meta rq) (u (Suc i))) [0..<m], [item]) \<and>
          it_link item = u m \<and> it_keyword item = m_keyword (rq_meta rq)"
  using assms
proof (induction m arbitrary: u rq)
  case 0
  obtain body where b: "pg_detail_text (site (u 0)) = Some body"
    using "0.prems"(3) by auto
  obtain d where d: "indo_to_datetime E (text_or_empty (pg_date (site (u 0)))) = Returned d"
    using "0.prems"(4) by (cases "indo_to_datetime E (text_or_empty (pg_date (site (u 0))))") auto
  show ?case
    using "0.prems"(2,5,6) b d by (simp add: dispatch_def cnn_parse_def fetch_def Let_def)
next
  case (Suc m)
  let ?nxt = "hop (rq_meta rq) (u (Suc 0))"
  have red: "pg_location (site (rq_url rq)) = Some (u (Suc 0))" "has_scheme (u (Suc 0))"
    using Suc.prems(1,5) by simp_all
  have outs: "dispatch E site rq = [Req ?nxt]"
    using red Suc.prems(6) by (simp add: dispatch_def cnn_parse_def fetch_def hop_def)
  have step: "article_chain E site (Suc (Suc m) + n) rq =
      map_option (\<lambda>(followed, items). (?nxt # followed, items))
        (article_chain E site (Suc m + n) ?nxt)"
    using outs by (simp add: hop_def)
  have "\<exists>item. article_chain E site (Suc m + n) ?nxt =
            Some (map (\<lambda>i. hop (rq_meta ?nxt) ((u \<circ> Suc) (Suc i))) [0..<m], [item]) \<and>
          it_link item = (u \<circ> Suc) m \<and> it_keyword item = m_keyword (rq_meta ?nxt)"
  proof (rule Suc.IH)
    show "\<forall>i<m. pg_location (site ((u \<circ> Suc) i)) = Some ((u \<circ> Suc) (Suc i)) \<and>
            has_scheme ((u \<circ> Suc) (Suc i))"
      using Suc.prems(1) by simp
    show "pg_location (site ((u \<circ> Suc) m)) = None" using Suc.prems(2) by simp
    show "pg_detail_text (site ((u \<circ> Suc) m)) \<noteq> None" using Suc.prems(3) by simp
    show "indo_to_datetime E (text_or_empty (pg_date (site ((u \<circ> Suc) m)))) \<noteq> Raised"
      using Suc.prems(4) by simp
    show "rq_url ?nxt = (u \<circ> Suc) 0" by (simp add: hop_def)
    show "rq_callback ?nxt = ParseArticle" by (simp add: hop_def)
  qed
  then obtain item where it:
    "article_chain E site (Suc m + n) ?nxt =
       Some (map (\<lambda>i. hop (rq_meta rq) (u (Suc (Suc i)))) [0..<m], [item])"
    "it_link item = u (Suc m)" "it_keyword item = m_keyword (rq_meta rq)"
    by (auto simp: hop_def)
  have m: "map (\<lambda>i. hop (rq_meta rq) (u (Suc i))) [0..<Suc m] =
           ?nxt # map (\<lambda>i. hop (rq_meta rq) (u (Suc (Suc i)))) [0..<m]"
    by (simp add: map_upt_Suc del: upt_Suc)
  show ?case
    unfolding step it(1) m using it(2,3) by simp
qed

text \<open>
  Claim C6, as the search-API adapter has it. A response with a \<^verbatim>\<open>location\<close> header whose
  value has a scheme yields exactly one request, to the target, with the same context and
  the article callback, and no record; the article callback never yields a pagination
  request. The adapter keeps no count of the redirects: from an article request, a chain of
  \<open>m\<close> redirects over pairwise different addresses with a scheme that ends at an article
  page is followed \<open>m\<close> times and yields exactly one record, that of the last address.
\<close>

theorem C6_redirect_follow:
  "(pg_location (rs_page r) = Some target \<and> has_scheme target \<longrightarrow>
      cnn_parse E r =
        ([Req \<lparr>rq_url = target, rq_callback = ParseArticle, rq_meta = rs_meta r\<rparr>], None)) \<and>
   requests_of ParseSearch (fst (cnn_parse E r)) = [] \<and>
   ((\<forall>i<m. pg_location (site (u i)) = Some (u (Suc i)) \<and> has_scheme (u (Suc i))) \<and>
    distinct (map u [0..<Suc m]) \<and>
    pg_location (site (u m)) = None \<and> pg_detail_text (site (u m)) \<noteq> None \<and>
    indo_to_datetime E (text_or_empty (pg_date (site (u m)))) \<noteq> Raised \<and>
    rq_url rq = u 0 \<and> rq_callback rq = ParseArticle \<longrightarrow>
      (\<exists>item. article_chain E site (Suc m + n) rq =
                 Some (map (\<lambda>i. hop (rq_meta rq) (u (Suc i))) [0..<m], [item]) \<and>
               it_link item = u m \<and> it_keyword item = m_keyword (rq_meta rq)))"
  using cnn_parse_redirect [of r target E] cnn_parse_never_paginates [of E r]
    article_chain_hops [of m site u E rq n]
  by blast

lemma relative_location_dropped:
  "cnn_parse demo_cnn relative_moved = ([], Some ValueError)"
  by (simp add: cnn_parse_def relative_moved_def moved_to_def no_page_def has_scheme_def)

theorem C6_redirect_follow_witness:
  "cnn_parse demo_cnn (fetch moved_site article_request) =
     ([Req (hop article_meta ''https://www.cnnindonesia.com/b'')], None) \<and>
   followed_urls (article_chain demo_cnn moved_site 2 article_request) =
     [''https://www.cnnindonesia.com/b''] \<and>
   record_links (article_chain demo_cnn moved_site 2 article_request) =
     [''https://www.cnnindonesia.com/b'']"
proof -
  have s: "has_scheme ''https://www.cnnindonesia.com/b''"
    by (simp add: has_scheme_def)
  have l: "pg_location (rs_page (fetch moved_site article_request)) =
             Some ''https://www.cnnindonesia.com/b''"
    by (simp add: fetch_def moved_site_def article_request_def moved_to_def no_page_def)
  have h: "\<forall>i<1. pg_location (moved_site (moved_hops i)) = Some (moved_hops (Suc i)) \<and>
                  has_scheme (moved_hops (Suc i))"
    using s by (simp add: moved_site_def moved_hops_def moved_to_def no_page_def)
  have d: "distinct (map moved_hops [0..<Suc 1])"
    by (simp add: moved_hops_def)
  have t: "pg_location (moved_site (moved_hops 1)) = None"
    "pg_detail_text (moved_site (moved_hops 1)) \<noteq> None"
    "indo_to_datetime demo_cnn (text_or_empty (pg_date (moved_site (moved_hops 1)))) \<noteq> Raised"
    "rq_url article_request = moved_hops 0" "rq_callback article_request = ParseArticle"
    by (simp_all add: moved_site_def moved_hops_def story_page_def demo_cnn_def
        text_or_empty_def article_request_def)
  show ?thesis
    using C6_redirect_follow [of "fetch moved_site article_request"
        "''https://www.cnnindonesia.com/b''" demo_cnn 1 moved_site moved_hops article_request 0]
      s l h d t
    by (auto simp: fetch_def hop_def followed_urls_def record_links_def article_request_def
        moved_hops_def numeral_2_eq_2)
qed

text \<open>
  One article request whose target redirects again is followed twice.
\<close>

theorem C6_two_redirects_followed:
  "followed_urls (article_chain demo_cnn relay_site 3 article_request) =
     [''https://www.cnnindonesia.com/b'', ''https://www.cnnindonesia.com/c''] \<and>
   record_links (article_chain demo_cnn relay_site 3 article_request) =
     [''https://www.cnnindonesia.com/c'']"
  by (simp add: relay_site_def moved_to_def no_page_def story_page_def cnn_parse_def
      dispatch_def has_scheme_def
      demo_cnn_def article_request_def article_meta_def fetch_def followed_urls_def
      record_links_def text_or_empty_def numeral_3_eq_3 Let_def)




















lemma query_attempts_comma: "q \<in> set (query_attempts cands kab) \<Longrightarrow> CHR '','' \<in> set q"
  by (auto simp: query_attempts_def split: if_splits)

lemma query_attempts_strip: "q \<in> set (query_attempts cands kab) \<Longrightarrow> py_strip q \<noteq> []"
proof -
  assume "q \<in> set (query_attempts cands kab)"
  then have "CHR '','' \<in> set q" by (rule query_attempts_comma)
  moreover have "\<not> py_isspace CHR '',''" by (simp add: py_isspace_def)
  ultimately show ?thesis unfolding py_strip_empty_iff by blast
qed

lemma first_lookup:
  assumes ne: "py_strip q \<noteq> []"
  shows "q \<in> dom (geocode_cache s) \<or> py_strip q \<in> dom (geocode_cache s) \<or>
         calls (snd (lookup E s q)) = calls s @ [py_strip q]"
proof (rule lookup_cases [where q = q and E = E and s = s])
  fix r assume "q \<in> tried_queries s" and "geocode_cache s q = Some r"
  then show ?thesis by auto
next
  fix r s' assume g: "geocode_cached E s q = (r, s')"
    and l: "lookup E s q = (r, s'\<lparr>tried_queries := insert q (tried_queries s')\<rparr>)"
  show ?thesis
  proof (rule geocode_cached_cases [where q = q and E = E and s = s])
    assume "py_strip q = []"
    with ne show ?thesis by simp
  next
    fix r0 assume "geocode_cache s (py_strip q) = Some r0"
    then show ?thesis by auto
  next
    assume "geocode_cached E s q =
           (answer (geocode E (calls s) (py_strip q)),
            s\<lparr>geocode_cache := (geocode_cache s)
                  (py_strip q \<mapsto> answer (geocode E (calls s) (py_strip q))),
              calls := calls s @ [py_strip q]\<rparr>)"
    with g l have "calls (snd (lookup E s q)) = calls s @ [py_strip q]" by auto
    then show ?thesis by simp
  qed
qed

lemma try_queries_first_lookup:
  assumes ne: "py_strip q \<noteq> []"
  shows "q \<in> dom (geocode_cache s) \<or> py_strip q \<in> dom (geocode_cache s) \<or>
         prefix (calls s @ [py_strip q]) (calls (snd (try_queries E cs kb s (q # qs))))"
proof -
  obtain ro s1 where l: "lookup E s q = (ro, s1)" by (cases "lookup E s q")
  have p: "prefix (calls s1) (calls (snd (try_queries E cs kb s (q # qs))))"
  proof (cases ro)
    case None
    with l have "try_queries E cs kb s (q # qs) = try_queries E cs kb s1 qs"
      by (simp only: try_queries_miss)
    then show ?thesis using try_queries_calls [of s1 E cs kb qs] by simp
  next
    case (Some a)
    obtain lat lon display where a: "a = (lat, lon, display)" by (cases a)
    from l Some a have "snd (try_queries E cs kb s (q # qs)) = s1"
      by (simp only: try_queries_hit snd_conv)
    then show ?thesis by simp
  qed
  from first_lookup [OF ne, of s E] l
  have "q \<in> dom (geocode_cache s) \<or> py_strip q \<in> dom (geocode_cache s) \<or>
        calls s1 = calls s @ [py_strip q]" by simp
  with p show ?thesis by auto
qed

lemma skip_feature_calls: "calls (snd (skip_feature s f)) = calls s"
  by (simp add: skip_feature_def Let_def)

lemma update_feature_calls: "calls (snd (update_feature s f r)) = calls s"
  by (simp add: update_feature_def Let_def)

lemma refine_feature_calls:
  assumes c: "candidates_of E (cleaned_of E (properties f)) = Inr cands"
  shows "calls (snd (refine_feature E s f)) =
         calls (snd (try_queries E cands (kabupaten_of E (properties f)) s
             (query_attempts cands (kabupaten_of E (properties f)))))"
proof -
  let ?t = "try_queries E cands (kabupaten_of E (properties f)) s
             (query_attempts cands (kabupaten_of E (properties f)))"
  obtain res s1 where t: "?t = (res, s1)" by (cases ?t)
  show ?thesis
  proof (cases res)
    case None
    with t refine_feature_not_found [OF c, of s s1] show ?thesis
      by (simp add: skip_feature_calls)
  next
    case (Some r)
    with t refine_feature_found [OF c, of s r s1] show ?thesis
      by (simp add: update_feature_calls)
  qed
qed

lemma error_feature_state:
  "errors (snd (error_feature s f e)) = errors s + 1 \<and>
   calls (snd (error_feature s f e)) = calls s \<and>
   tried_queries (snd (error_feature s f e)) = tried_queries s \<and>
   geocode_cache (snd (error_feature s f e)) = geocode_cache s"
  by (simp add: error_feature_def Let_def)

lemma refine_feature_first_lookup:
  assumes c: "candidates_of E (cleaned_of E (properties f)) = Inr cands"
    and k: "kabupaten_of E (properties f) = kab"
  shows "hd (query_attempts cands kab) \<in> dom (geocode_cache s) \<or>
         py_strip (hd (query_attempts cands kab)) \<in> dom (geocode_cache s) \<or>
         prefix (calls s @ [py_strip (hd (query_attempts cands kab))])
           (calls (snd (refine_feature E s f)))"
proof -
  obtain q qs where qs: "query_attempts cands kab = q # qs"
    using query_attempts_nonempty [of cands kab] by (cases "query_attempts cands kab") auto
  then have "q \<in> set (query_attempts cands kab)" by simp
  then have ne: "py_strip q \<noteq> []" by (rule query_attempts_strip)
  from try_queries_first_lookup [OF ne, of s E cands kab qs]
    refine_feature_calls [OF c, of s] k qs
  show ?thesis by simp
qed

text \<open>
  Claim C9, as the refiner has it. Whatever the candidates and the region hint, the list of
  query attempts is not empty, ends with the last-resort query \<open>Bali, Indonesia\<close>, and its
  first query is not blank. For a feature whose text is read without error, the first query
  is looked up: it is answered from the cache as it was before the feature, or it is the
  next string sent to the geocoder. A feature whose text is a truthy number raises before
  any list is built: it is counted as an error, and neither the geocoder, nor the cache,
  nor the set of tried queries is touched.
\<close>

theorem C9_last_resort_query:
  "query_attempts cands kab \<noteq> [] \<and>
   last (query_attempts cands kab) = ''Bali, Indonesia'' \<and>
   py_strip (hd (query_attempts cands kab)) \<noteq> [] \<and>
   (candidates_of E (cleaned_of E (properties f)) = Inr cands \<and>
    kabupaten_of E (properties f) = kab \<longrightarrow>
      (hd (query_attempts cands kab) \<in> dom (geocode_cache s) \<or>
       py_strip (hd (query_attempts cands kab)) \<in> dom (geocode_cache s) \<or>
       prefix (calls s @ [py_strip (hd (query_attempts cands kab))])
         (calls (snd (refine_feature E s f))))) \<and>
   (candidates_of E (cleaned_of E (properties f)) = Inl e \<longrightarrow>
      errors (snd (refine_feature E s f)) = errors s + 1 \<and>
      calls (snd (refine_feature E s f)) = calls s \<and>
      tried_queries (snd (refine_feature E s f)) = tried_queries s \<and>
      geocode_cache (snd (refine_feature E s f)) = geocode_cache s)"
proof (intro conjI impI)
  show "query_attempts cands kab \<noteq> []" by (rule query_attempts_nonempty)
  show "last (query_attempts cands kab) = ''Bali, Indonesia''" by (rule query_attempts_last)
  show "py_strip (hd (query_attempts cands kab)) \<noteq> []"
    by (rule query_attempts_strip [of _ cands kab]) (simp add: query_attempts_nonempty)
next
  assume "candidates_of E (cleaned_of E (properties f)) = Inr cands \<and>
    kabupaten_of E (properties f) = kab"
  then show "hd (query_attempts cands kab) \<in> dom (geocode_cache s) \<or>
       py_strip (hd (query_attempts cands kab)) \<in> dom (geocode_cache s) \<or>
       prefix (calls s @ [py_strip (hd (query_attempts cands kab))])
         (calls (snd (refine_feature E s f)))"
    using refine_feature_first_lookup [of E f cands kab s] by blast
next
  assume a: "candidates_of E (cleaned_of E (properties f)) = Inl e"
  from refine_feature_error [OF a, of s] error_feature_state [of s f e]
  show "errors (snd (refine_feature E s f)) = errors s + 1"
    and "calls (snd (refine_feature E s f)) = calls s"
    and "tried_queries (snd (refine_feature E s f)) = tried_queries s"
    and "geocode_cache (snd (refine_feature E s f)) = geocode_cache s"
    by simp_all
qed

lemma numeric_cands:
  "candidates_of demo_env (cleaned_of demo_env (properties numeric_feature)) = Inl AttributeError"
  by (simp add: cleaned_of_def numeric_feature_def py_or_def py_truthy_def get_prop_def
      candidates_of_def demo_env_def)

lemma demo_feature_calls:
  "calls (snd (refine_feature demo_env initial_state demo_feature)) =
     [''Kota Ubud, Gianyar, Bali, Indonesia'', ''Desa Kuta, Gianyar, Bali, Indonesia'',
      ''Kota Ubud, Bali, Indonesia'', ''Desa Kuta, Bali, Indonesia'',
      ''Gianyar, Bali, Indonesia'']"
proof -
  have c: "candidates_of demo_env (cleaned_of demo_env (properties demo_feature)) =
      Inr [''Kota Ubud'', ''Desa Kuta'']"
    by (simp only: demo_cleaned demo_cands)
  show ?thesis
    unfolding refine_feature_calls [OF c] demo_kab by (simp add: demo_simps)
qed

theorem C9_last_resort_query_witness:
  "hd (query_attempts [''Kota Ubud'', ''Desa Kuta''] (Some ''Gianyar'')) =
     ''Kota Ubud, Gianyar, Bali, Indonesia'' \<and>
   dom (geocode_cache (initial_state :: int run_state)) = {} \<and>
   prefix [''Kota Ubud, Gianyar, Bali, Indonesia'']
     (calls (snd (refine_feature demo_env initial_state demo_feature))) \<and>
   errors (snd (refine_feature demo_env initial_state numeric_feature)) = 1"
proof -
  have c: "candidates_of demo_env (cleaned_of demo_env (properties demo_feature)) =
      Inr [''Kota Ubud'', ''Desa Kuta'']"
    by (simp only: demo_cleaned demo_cands)
  have h: "hd (query_attempts [''Kota Ubud'', ''Desa Kuta''] (Some ''Gianyar'')) =
     ''Kota Ubud, Gianyar, Bali, Indonesia''"
    by (simp add: demo_attempts_feature)
  have s: "py_strip ''Kota Ubud, Gianyar, Bali, Indonesia'' = ''Kota Ubud, Gianyar, Bali, Indonesia''"
    by (simp add: py_strip_def py_isspace_def)
  have i: "dom (geocode_cache (initial_state :: int run_state)) = {}"
    "calls (initial_state :: int run_state) = []" "errors (initial_state :: int run_state) = 0"
    by (simp_all add: initial_state_def)
  show ?thesis
    using C9_last_resort_query [where cands = "[''Kota Ubud'', ''Desa Kuta'']"
        and kab = "Some ''Gianyar''" and E = demo_env and f = demo_feature
        and s = initial_state] c demo_kab
      C9_last_resort_query [where cands = "[]" and kab = None and E = demo_env
        and f = numeric_feature and e = AttributeError and s = initial_state]
      numeric_cands
    unfolding h s i by simp
qed

text \<open>
  A feature whose cleaned text is the number 1: one error, no call and no query tried.
\<close>

theorem C9_numeric_text_no_lookup:
  "errors (snd (refine_feature demo_env initial_state numeric_feature)) = 1 \<and>
   calls (snd (refine_feature demo_env initial_state numeric_feature)) = [] \<and>
   tried_queries (snd (refine_feature demo_env initial_state numeric_feature)) = {}"
  by (simp add: refine_feature_error [OF numeric_cands] error_feature_def initial_state_def Let_def)

lemma try_queries_stops:
  assumes "fst (try_queries E cs kb s qs) = Some r"
  shows "\<exists>pre post. qs = pre @ used_query r # post \<and>
           fst (try_queries E cs kb s pre) = None \<and>
           try_queries E cs kb s qs = try_queries E cs kb s (pre @ [used_query r]) \<and>
           tried_queries (snd (try_queries E cs kb s qs)) =
             tried_queries s \<union> set pre \<union> {used_query r}"
  using assms
proof (induction qs arbitrary: s)
  case Nil
  then show ?case by simp
next
  case (Cons q qs)
  obtain ro s' where l: "lookup E s q = (ro, s')" by (cases "lookup E s q")
  from lookup_tried [of E s q] l have t: "tried_queries s' = insert q (tried_queries s)" by simp
  show ?case
  proof (cases ro)
    case None
    with l have step: "\<And>xs. try_queries E cs kb s (q # xs) = try_queries E cs kb s' xs"
      by (simp only: try_queries_miss)
    from Cons.prems step have "fst (try_queries E cs kb s' qs) = Some r" by simp
    from Cons.IH [OF this] obtain pre post where p:
      "qs = pre @ used_query r # post"
      "fst (try_queries E cs kb s' pre) = None"
      "try_queries E cs kb s' qs = try_queries E cs kb s' (pre @ [used_query r])"
      "tried_queries (snd (try_queries E cs kb s' qs)) =
         tried_queries s' \<union> set pre \<union> {used_query r}"
      by blast
    have "q # qs = (q # pre) @ used_query r # post" using p(1) by simp
    moreover have "fst (try_queries E cs kb s (q # pre)) = None" using p(2) step by simp
    moreover have "try_queries E cs kb s (q # qs) =
        try_queries E cs kb s ((q # pre) @ [used_query r])"
      using p(3) step by simp
    moreover have "tried_queries (snd (try_queries E cs kb s (q # qs))) =
        tried_queries s \<union> set (q # pre) \<union> {used_query r}"
      using p(4) step t by auto
    ultimately show ?thesis by blast
  next
    case (Some a)
    obtain lat lon display where a: "a = (lat, lon, display)" by (cases a)
    from l Some a have h: "\<And>xs. try_queries E cs kb s (q # xs) =
       (Some \<lparr>found_lat = lat, found_lon = lon, found_display = display,
              used_query = q, used_source = source_of cs kb q\<rparr>, s')"
      by (simp only: try_queries_hit)
    from Cons.prems h have u: "used_query r = q" by auto
    have "q # qs = [] @ used_query r # qs" using u by simp
    moreover have "fst (try_queries E cs kb s []) = None" by simp
    moreover have "try_queries E cs kb s (q # qs) = try_queries E cs kb s ([] @ [used_query r])"
      using h u by simp
    moreover have "tried_queries (snd (try_queries E cs kb s (q # qs))) =
        tried_queries s \<union> set [] \<union> {used_query r}"
      using h t u by simp
    ultimately show ?thesis by blast
  qed
qed

lemma try_queries_all_tried:
  assumes "fst (try_queries E cs kb s qs) = None"
  shows "tried_queries (snd (try_queries E cs kb s qs)) = tried_queries s \<union> set qs"
  using assms
proof (induction qs arbitrary: s)
  case Nil
  then show ?case by simp
next
  case (Cons q qs)
  obtain ro s' where l: "lookup E s q = (ro, s')" by (cases "lookup E s q")
  from lookup_tried [of E s q] l have t: "tried_queries s' = insert q (tried_queries s)" by simp
  show ?case
  proof (cases ro)
    case None
    with l have step: "try_queries E cs kb s (q # qs) = try_queries E cs kb s' qs"
      by (simp only: try_queries_miss)
    with Cons.prems have "fst (try_queries E cs kb s' qs) = None" by simp
    from Cons.IH [OF this] step t show ?thesis by auto
  next
    case (Some a)
    obtain lat lon display where a: "a = (lat, lon, display)" by (cases a)
    from l Some a have "try_queries E cs kb s (q # qs) =
       (Some \<lparr>found_lat = lat, found_lon = lon, found_display = display,
              used_query = q, used_source = source_of cs kb q\<rparr>, s')"
      by (simp only: try_queries_hit)
    with Cons.prems show ?thesis by simp
  qed
qed

lemma query_attempts_hint:
  "str_truthy (Some k) \<Longrightarrow>
   query_attempts cands (Some k) =
     map (\<lambda>c. c @ '', '' @ k @ '', Bali, Indonesia'') cands @
     map (\<lambda>c. c @ '', Bali, Indonesia'') cands @
     [k @ '', Bali, Indonesia'', ''Bali, Indonesia'']"
  by (simp add: query_attempts_def)

lemma query_attempts_no_hint:
  "\<not> str_truthy kab \<Longrightarrow>
   query_attempts cands kab = map (\<lambda>c. c @ '', Bali, Indonesia'') cands @ [''Bali, Indonesia'']"
  by (simp add: query_attempts_def)

text \<open>
  Claim C1, as the refiner has it. With a region hint, the list holds every candidate with
  the hint and \<open>Bali, Indonesia\<close>, in the order of the candidates, then every candidate
  with \<open>Bali, Indonesia\<close>, then the hint with \<open>Bali, Indonesia\<close>, then
  \<open>Bali, Indonesia\<close> alone; without a hint, the two tiers that need it are left out. The
  queries are tried in the order of the list and the first that yields a coordinate ends
  the loop: the queries before it yield none, those after it have no influence on the
  result and are not tried. When none yields a coordinate, all have been tried.
\<close>

theorem C1_query_priority:
  "(str_truthy (Some k) \<longrightarrow>
      query_attempts cands (Some k) =
        map (\<lambda>c. c @ '', '' @ k @ '', Bali, Indonesia'') cands @
        map (\<lambda>c. c @ '', Bali, Indonesia'') cands @
        [k @ '', Bali, Indonesia'', ''Bali, Indonesia'']) \<and>
   (\<not> str_truthy kab \<longrightarrow>
      query_attempts cands kab =
        map (\<lambda>c. c @ '', Bali, Indonesia'') cands @ [''Bali, Indonesia'']) \<and>
   (fst (try_queries E cs kb s qs) = Some r \<longrightarrow>
      (\<exists>pre post. qs = pre @ used_query r # post \<and>
         fst (try_queries E cs kb s pre) = None \<and>
         try_queries E cs kb s qs = try_queries E cs kb s (pre @ [used_query r]) \<and>
         tried_queries (snd (try_queries E cs kb s qs)) =
           tried_queries s \<union> set pre \<union> {used_query r})) \<and>
   (fst (try_queries E' cs' kb' s' qs') = None \<longrightarrow>
      tried_queries (snd (try_queries E' cs' kb' s' qs')) = tried_queries s' \<union> set qs')"
  using query_attempts_hint [of k cands] query_attempts_no_hint [of kab cands]
    try_queries_stops [of E cs kb s qs r] try_queries_all_tried [of E' cs' kb' s' qs']
  by blast

lemma priority_attempts:
  "query_attempts [''Ubud'', ''Kuta''] (Some ''Gianyar'') =
     [''Ubud, Gianyar, Bali, Indonesia'', ''Kuta, Gianyar, Bali, Indonesia'',
      ''Ubud, Bali, Indonesia'', ''Kuta, Bali, Indonesia'',
      ''Gianyar, Bali, Indonesia'', ''Bali, Indonesia'']"
  by (simp add: query_attempts_def str_truthy_def)

lemma priority_resolved:
  "fst (try_queries demo_env [''Ubud'', ''Kuta''] (Some ''Gianyar'') initial_state
          (query_attempts [''Ubud'', ''Kuta''] (Some ''Gianyar''))) = Some demo_found"
  by (simp add: demo_simps demo_found_def)

lemma priority_tried:
  "tried_queries (snd (try_queries demo_env [''Ubud'', ''Kuta''] (Some ''Gianyar'') initial_state
          (query_attempts [''Ubud'', ''Kuta''] (Some ''Gianyar'')))) =
     {''Ubud, Gianyar, Bali, Indonesia'', ''Kuta, Gianyar, Bali, Indonesia'',
      ''Ubud, Bali, Indonesia'', ''Kuta, Bali, Indonesia'', ''Gianyar, Bali, Indonesia''}"
  by (simp add: demo_simps) auto

lemma badung_down:
  "fst (try_queries down_env [] (Some ''Badung'') initial_state
          (query_attempts [] (Some ''Badung''))) = None"
  by (simp add: demo_simps)

theorem C1_query_priority_witness:
  "query_attempts [''Ubud'', ''Kuta''] (Some ''Gianyar'') =
     [''Ubud, Gianyar, Bali, Indonesia'', ''Kuta, Gianyar, Bali, Indonesia'',
      ''Ubud, Bali, Indonesia'', ''Kuta, Bali, Indonesia'',
      ''Gianyar, Bali, Indonesia'', ''Bali, Indonesia''] \<and>
   query_attempts [''Ubud'', ''Kuta''] None =
     [''Ubud, Bali, Indonesia'', ''Kuta, Bali, Indonesia'', ''Bali, Indonesia''] \<and>
   ''Bali, Indonesia'' \<notin>
     tried_queries (snd (try_queries demo_env [''Ubud'', ''Kuta''] (Some ''Gianyar'') initial_state
          (query_attempts [''Ubud'', ''Kuta''] (Some ''Gianyar'')))) \<and>
   tried_queries (snd (try_queries down_env [] (Some ''Badung'') initial_state
          (query_attempts [] (Some ''Badung'')))) =
     {''Badung, Bali, Indonesia'', ''Bali, Indonesia''}"
proof -
  have h: "str_truthy (Some ''Gianyar'')" "\<not> str_truthy None"
    by (simp_all add: str_truthy_def)
  have q: "query_attempts [] (Some ''Badung'') = [''Badung, Bali, Indonesia'', ''Bali, Indonesia'']"
    by (simp add: query_attempts_def str_truthy_def)
  have i: "tried_queries (initial_state :: int run_state) = {}"
    by (simp add: initial_state_def)
  show ?thesis
    using C1_query_priority [of "''Gianyar''" "[''Ubud'', ''Kuta'']" None demo_env
        "[''Ubud'', ''Kuta'']" "Some ''Gianyar''" initial_state
        "query_attempts [''Ubud'', ''Kuta''] (Some ''Gianyar'')" demo_found
        down_env "[]" "Some ''Badung''" initial_state "query_attempts [] (Some ''Badung'')"]
      h priority_resolved badung_down priority_tried
    by (simp add: q i)
qed

text \<open>
  With no candidate and the region hint \<open>Badung\<close>, the first query of the list, which is
  also the first string sent to the geocoder, is \<open>Badung, Bali, Indonesia\<close>.
\<close>

theorem C1_badung_first_query:
  "hd (query_attempts [] (Some ''Badung'')) = ''Badung, Bali, Indonesia'' \<and>
   hd (query_attempts [] (Some ''Badung'')) \<noteq> ''Badung, Indonesia'' \<and>
   calls (snd (try_queries demo_env [] (Some ''Badung'') initial_state
                 (query_attempts [] (Some ''Badung'')))) =
     [''Badung, Bali, Indonesia'', ''Bali, Indonesia'']"
  by (simp add: demo_simps)

lemma try_queries_source:
  assumes "fst (try_queries E cs kb s qs) = Some r"
  shows "used_source r = source_of cs kb (used_query r) \<and> used_query r \<in> set qs"
  using assms
proof (induction qs arbitrary: s)
  case Nil
  then show ?case by simp
next
  case (Cons q qs)
  obtain ro s' where l: "lookup E s q = (ro, s')" by (cases "lookup E s q")
  show ?case
  proof (cases ro)
    case None
    with l have "try_queries E cs kb s (q # qs) = try_queries E cs kb s' qs"
      by (simp only: try_queries_miss)
    with Cons.prems have "fst (try_queries E cs kb s' qs) = Some r" by simp
    from Cons.IH [OF this] show ?thesis by simp
  next
    case (Some a)
    obtain lat lon display where a: "a = (lat, lon, display)" by (cases a)
    from l Some a have "try_queries E cs kb s (q # qs) =
       (Some \<lparr>found_lat = lat, found_lon = lon, found_display = display,
              used_query = q, used_source = source_of cs kb q\<rparr>, s')"
      by (simp only: try_queries_hit)
    with Cons.prems show ?thesis by auto
  qed
qed

lemma source_of_labels:
  "source_of cs kb q \<in> {''article_place'', ''kabupaten_fallback'', ''bali_fallback''}"
  unfolding source_of_def by (simp del: py_in.simps)

lemma source_of_candidate:
  assumes "c \<in> set cs" and "py_in c q" and "py_in '','' q"
  shows "source_of cs kb q = ''article_place''"
proof -
  from assms(1,2) have "list_ex (\<lambda>c. py_in c q) cs" unfolding list_ex_iff by blast
  with assms(3) show ?thesis unfolding source_of_def by simp
qed

lemma source_of_tier:
  assumes ap: "tiers_apart cs kb" and m: "(q, t) \<in> set (tagged_attempts cs kb)"
  shows "source_of cs kb q = tier_label t"
proof -
  from ap have no1: "\<And>c. c \<in> set cs \<Longrightarrow> \<not> py_in c ''Bali, Indonesia''"
    and no2: "\<And>c. c \<in> set cs \<Longrightarrow> str_truthy kb \<Longrightarrow> \<not> py_in c (the kb @ '', Bali, Indonesia'')"
    and no3: "str_truthy kb \<Longrightarrow> \<not> py_in (the kb) ''Bali, Indonesia''"
    unfolding tiers_apart_def list_all_iff by blast+
  from m consider
      (both) c where "str_truthy kb" "c \<in> set cs"
        "q = c @ '', '' @ the kb @ '', Bali, Indonesia''" "t = article_place"
    | (place) c where "c \<in> set cs" "q = c @ '', Bali, Indonesia''" "t = article_place"
    | (hint) "str_truthy kb" "q = the kb @ '', Bali, Indonesia''" "t = kabupaten_fallback"
    | (last) "q = ''Bali, Indonesia''" "t = region_fallback"
    unfolding tagged_attempts_def by (auto split: if_splits)
  then show ?thesis
  proof cases
    case both
    have "py_in c q" unfolding both(3) by (rule py_in_head)
    moreover have "py_in '','' q"
      using py_in_intro [of "'',''" c "'' '' @ the kb @ '', Bali, Indonesia''"]
      unfolding both(3) by simp
    ultimately show ?thesis
      using source_of_candidate [OF both(2)] both(4) by (simp add: tier_label_def)
  next
    case place
    have "py_in c q" unfolding place(2) by (rule py_in_head)
    moreover have "py_in '','' q"
      using py_in_intro [of "'',''" c "'' Bali, Indonesia''"]
      unfolding place(2) by simp
    ultimately show ?thesis
      using source_of_candidate [OF place(1)] place(3) by (simp add: tier_label_def)
  next
    case hint
    have "\<not> list_ex (\<lambda>c. py_in c q) cs"
      unfolding list_ex_iff hint(2) using no2 hint(1) by blast
    moreover have "py_in (the kb) q" unfolding hint(2) by (rule py_in_head)
    ultimately show ?thesis
      using hint(1,3) unfolding source_of_def by (simp add: tier_label_def)
  next
    case last
    have "\<not> list_ex (\<lambda>c. py_in c q) cs"
      unfolding list_ex_iff last(1) using no1 by blast
    moreover have "str_truthy kb \<Longrightarrow> \<not> py_in (the kb) q"
      unfolding last(1) by (rule no3)
    ultimately show ?thesis
      using last(2) unfolding source_of_def by (auto simp: tier_label_def)
  qed
qed

lemma tagged_attempts_queries: "map fst (tagged_attempts cs kb) = query_attempts cs kb"
  by (simp add: tagged_attempts_def query_attempts_def comp_def)

lemma update_feature_source:
  "properties (fst (update_feature s f r)) ''refine_source'' = Some (JStr (used_source r))"
  by (simp add: update_feature_def Let_def)

lemma error_feature_source:
  "last (csv_rows (snd (error_feature s f e))) ''refine_source'' = Some (JStr ''error'') \<and>
   properties (fst (error_feature s f e)) ''refine_source'' = properties f ''refine_source''"
  by (simp add: error_feature_def csv_row_def Let_def)

text \<open>
  Claim C2, as the refiner has it. The provenance recorded with a coordinate is computed
  from the text of the query that yielded it, and is one of \<open>article_place\<close>,
  \<open>kabupaten_fallback\<close> and \<open>bali_fallback\<close>. When no candidate occurs in the two
  fallback queries and the region hint does not occur in \<open>Bali, Indonesia\<close>, it is the
  label of the tier the query was built in. It is the value written to the property
  \<open>refine_source\<close> of an updated feature; the row of the backup of a feature that raised
  has \<open>error\<close> there, and its own property is left as it was.
\<close>

theorem C2_refine_source:
  "(fst (try_queries E cs kb s qs) = Some r \<longrightarrow>
      used_query r \<in> set qs \<and> used_source r = source_of cs kb (used_query r)) \<and>
   source_of cs' kb' q' \<in> {''article_place'', ''kabupaten_fallback'', ''bali_fallback''} \<and>
   map fst (tagged_attempts cs kb) = query_attempts cs kb \<and>
   (tiers_apart cs kb \<and> (q, t) \<in> set (tagged_attempts cs kb) \<longrightarrow>
      source_of cs kb q = tier_label t) \<and>
   (candidates_of E (cleaned_of E (properties f)) = Inr cs \<and>
    kabupaten_of E (properties f) = kb \<and>
    fst (try_queries E cs kb s (query_attempts cs kb)) = Some r \<longrightarrow>
      properties (fst (refine_feature E s f)) ''refine_source'' = Some (JStr (used_source r))) \<and>
   (candidates_of E' (cleaned_of E' (properties f')) = Inl e \<longrightarrow>
      last (csv_rows (snd (refine_feature E' s' f'))) ''refine_source'' = Some (JStr ''error'') \<and>
      properties (fst (refine_feature E' s' f')) ''refine_source'' =
        properties f' ''refine_source'')"
proof (intro conjI impI)
  assume "fst (try_queries E cs kb s qs) = Some r"
  from try_queries_source [OF this]
  show "used_query r \<in> set qs" and "used_source r = source_of cs kb (used_query r)"
    by simp_all
next
  show "source_of cs' kb' q' \<in> {''article_place'', ''kabupaten_fallback'', ''bali_fallback''}"
    by (rule source_of_labels)
next
  show "map fst (tagged_attempts cs kb) = query_attempts cs kb"
    by (rule tagged_attempts_queries)
next
  assume "tiers_apart cs kb \<and> (q, t) \<in> set (tagged_attempts cs kb)"
  then show "source_of cs kb q = tier_label t" using source_of_tier [of cs kb q t] by blast
next
  assume a: "candidates_of E (cleaned_of E (properties f)) = Inr cs \<and>
    kabupaten_of E (properties f) = kb \<and>
    fst (try_queries E cs kb s (query_attempts cs kb)) = Some r"
  obtain s1 where "try_queries E cs kb s (query_attempts cs kb) = (Some r, s1)"
    using a by (cases "try_queries E cs kb s (query_attempts cs kb)") auto
  with a have "refine_feature E s f = update_feature s1 f r"
    using refine_feature_found [of E f cs s r s1] by blast
  then show "properties (fst (refine_feature E s f)) ''refine_source'' =
      Some (JStr (used_source r))"
    by (simp only: update_feature_source)
next
  assume a: "candidates_of E' (cleaned_of E' (properties f')) = Inl e"
  from refine_feature_error [OF a, of s']
  show "last (csv_rows (snd (refine_feature E' s' f'))) ''refine_source'' =
          Some (JStr ''error'')"
    and "properties (fst (refine_feature E' s' f')) ''refine_source'' =
          properties f' ''refine_source''"
    by (simp_all only: error_feature_source)
qed

text \<open>
  The label of the last-resort tier is \<open>bali_fallback\<close>; and with the candidate
  \<open>Bali\<close>, a coordinate that the query of the region hint yields is recorded as
  \<open>article_place\<close>.
\<close>

theorem C2_label_not_tier:
  "map_option used_source
     (fst (try_queries demo_env [] None initial_state (query_attempts [] None))) =
     Some ''bali_fallback'' \<and>
   ''bali_fallback'' \<notin> {''article_place'', ''kabupaten_fallback'', ''region_fallback''} \<and>
   map_option used_query
     (fst (try_queries demo_env [''Bali''] (Some ''Gianyar'') initial_state
             (query_attempts [''Bali''] (Some ''Gianyar'')))) =
     Some ''Gianyar, Bali, Indonesia'' \<and>
   map_option used_source
     (fst (try_queries demo_env [''Bali''] (Some ''Gianyar'') initial_state
             (query_attempts [''Bali''] (Some ''Gianyar'')))) =
     Some ''article_place'' \<and>
   (''Gianyar, Bali, Indonesia'', kabupaten_fallback)
     \<in> set (tagged_attempts [''Bali''] (Some ''Gianyar''))"
  by (simp add: demo_simps tagged_attempts_def)

lemma demo_tiers_apart: "tiers_apart [''Kota Ubud'', ''Desa Kuta''] (Some ''Gianyar'')"
  by (simp add: tiers_apart_def str_truthy_def)

theorem C2_refine_source_witness:
  "used_source demo_found =
     source_of [''Kota Ubud'', ''Desa Kuta''] (Some ''Gianyar'') ''Gianyar, Bali, Indonesia'' \<and>
   source_of [''Kota Ubud'', ''Desa Kuta''] (Some ''Gianyar'') ''Gianyar, Bali, Indonesia'' =
     ''kabupaten_fallback'' \<and>
   properties (fst (refine_feature demo_env initial_state demo_feature)) ''refine_source'' =
     Some (JStr ''kabupaten_fallback'') \<and>
   last (csv_rows (snd (refine_feature demo_env initial_state numeric_feature)))
     ''refine_source'' = Some (JStr ''error'')"
proof -
  let ?cs = "[''Kota Ubud'', ''Desa Kuta'']"
  let ?kb = "Some ''Gianyar''"
  let ?q = "''Gianyar, Bali, Indonesia''"
  let ?run = "try_queries demo_env ?cs ?kb initial_state (query_attempts ?cs ?kb)"
  have h1: "fst ?run = Some demo_found"
    by (simp only: demo_resolved demo_found_def)
  have h3: "(?q, kabupaten_fallback) \<in> set (tagged_attempts ?cs ?kb)"
    by (simp add: tagged_attempts_def str_truthy_def)
  have h4: "candidates_of demo_env (cleaned_of demo_env (properties demo_feature)) = Inr ?cs"
    by (simp only: demo_cleaned demo_cands)
  have u: "used_source demo_found = ''kabupaten_fallback''" "used_query demo_found = ?q"
    by (simp_all add: demo_found_def)
  note T = C2_refine_source [where E = demo_env and cs = ?cs and kb = ?kb and s = initial_state
        and qs = "query_attempts ?cs ?kb" and r = demo_found and cs' = ?cs and kb' = ?kb
        and q' = "''Bali, Indonesia''" and q = ?q
        and t = kabupaten_fallback and f = demo_feature
        and E' = demo_env and f' = numeric_feature and e = AttributeError
        and s' = initial_state]
  from T h1 have c1: "used_source demo_found = source_of ?cs ?kb (used_query demo_found)"
    by blast
  from T demo_tiers_apart h3 have c2: "source_of ?cs ?kb ?q = tier_label kabupaten_fallback"
    by blast
  from T h4 demo_kab h1 have c3:
    "properties (fst (refine_feature demo_env initial_state demo_feature)) ''refine_source'' =
       Some (JStr (used_source demo_found))"
    by blast
  from T numeric_cands have c4:
    "last (csv_rows (snd (refine_feature demo_env initial_state numeric_feature)))
       ''refine_source'' = Some (JStr ''error'')"
    by blast
  show ?thesis
    unfolding c3 using c1 c2 c4 unfolding u by (simp add: tier_label_def)
qed

lemma char_case_bits:
  "(is_upper (to_lower (Char b0 b1 b2 b3 b4 b5 b6 b7)) \<or> is_lower (to_lower (Char b0 b1 b2 b3 b4 b5 b6 b7))) =
     (is_upper (Char b0 b1 b2 b3 b4 b5 b6 b7) \<or> is_lower (Char b0 b1 b2 b3 b4 b5 b6 b7)) \<and>
   (is_upper (to_upper (Char b0 b1 b2 b3 b4 b5 b6 b7)) \<or> is_lower (to_upper (Char b0 b1 b2 b3 b4 b5 b6 b7))) =
     (is_upper (Char b0 b1 b2 b3 b4 b5 b6 b7) \<or> is_lower (Char b0 b1 b2 b3 b4 b5 b6 b7)) \<and>
   to_lower (to_lower (Char b0 b1 b2 b3 b4 b5 b6 b7)) = to_lower (Char b0 b1 b2 b3 b4 b5 b6 b7) \<and>
   to_upper (to_upper (Char b0 b1 b2 b3 b4 b5 b6 b7)) = to_upper (Char b0 b1 b2 b3 b4 b5 b6 b7) \<and>
   to_lower (to_upper (Char b0 b1 b2 b3 b4 b5 b6 b7)) = to_lower (Char b0 b1 b2 b3 b4 b5 b6 b7) \<and>
   to_upper (to_lower (Char b0 b1 b2 b3 b4 b5 b6 b7)) = to_upper (Char b0 b1 b2 b3 b4 b5 b6 b7)"
  by (cases b0; cases b1; cases b2; cases b3; cases b4; cases b5; cases b6; cases b7;
      simp add: is_upper_def is_lower_def to_lower_def to_upper_def Let_def)

lemma char_case:
  "(is_upper (to_lower c) \<or> is_lower (to_lower c)) = (is_upper c \<or> is_lower c)"
  "(is_upper (to_upper c) \<or> is_lower (to_upper c)) = (is_upper c \<or> is_lower c)"
  "to_lower (to_lower c) = to_lower c"
  "to_upper (to_upper c) = to_upper c"
  "to_lower (to_upper c) = to_lower c"
  "to_upper (to_lower c) = to_upper c"
  using char_case_bits by (cases c; simp)+

lemma title_from_idem: "title_from p (title_from p s) = title_from p s"
proof (induction s arbitrary: p)
  case Nil
  show ?case by simp
next
  case (Cons c cs)
  show ?case
  proof (cases "is_upper c \<or> is_lower c")
    case True
    then have l: "is_upper (to_lower c) \<or> is_lower (to_lower c)"
      and u: "is_upper (to_upper c) \<or> is_lower (to_upper c)"
      using char_case(1,2) [of c] by simp_all
    from True l u show ?thesis
      by (cases p) (simp_all add: char_case(3,4) Cons.IH)
  next
    case False
    then show ?thesis by (simp add: Cons.IH)
  qed
qed

lemma title_from_lower:
  "py_lower a = py_lower b \<Longrightarrow> title_from p a = title_from p b"
proof (induction a arbitrary: b p)
  case Nil
  then show ?case by (simp add: py_lower_def)
next
  case (Cons x xs)
  then obtain y ys where b: "b = y # ys" by (cases b) (auto simp: py_lower_def)
  from Cons.prems b have h: "to_lower x = to_lower y" and t: "py_lower xs = py_lower ys"
    by (simp_all add: py_lower_def)
  have lt: "(is_upper x \<or> is_lower x) = (is_upper y \<or> is_lower y)"
    using char_case(1) [of x] char_case(1) [of y] h by simp
  have up: "to_upper x = to_upper y"
    using char_case(6) [of x] char_case(6) [of y] h by simp
  have rest: "\<And>q. title_from q xs = title_from q ys" using Cons.IH [OF t] .
  show ?case
  proof (cases "is_upper x \<or> is_lower x")
    case True
    with lt have "is_upper y \<or> is_lower y" by simp
    with True show ?thesis unfolding b by (cases p) (simp_all add: h up rest)
  next
    case False
    with lt have ny: "\<not> (is_upper y \<or> is_lower y)" by simp
    from False have "x = to_lower x" by (simp add: to_lower_def)
    also note h
    also from ny have "to_lower y = y" by (simp add: to_lower_def)
    finally have "x = y" .
    with False ny show ?thesis unfolding b by (simp add: rest)
  qed
qed

lemma py_title_idem: "py_title (py_title s) = py_title s"
  unfolding py_title_def by (rule title_from_idem)

lemma normalize_case_insensitive:
  assumes "a \<in> set (normalize ms)" and "b \<in> set (normalize ms)"
    and "py_lower a = py_lower b"
  shows "a = b"
proof -
  from assms(1) obtain x where a: "a = py_title x" by (auto simp: normalize_def)
  from assms(2) obtain y where b: "b = py_title y" by (auto simp: normalize_def)
  have "py_title a = py_title b"
    unfolding py_title_def using assms(3) by (rule title_from_lower)
  then show ?thesis unfolding a b py_title_idem .
qed

lemma py_sorted_reverse_set: "set (py_sorted_reverse f ys) = set ys"
  by (simp add: py_sorted_reverse_def)

lemma py_sorted_reverse_distinct: "distinct (py_sorted_reverse f ys) = distinct ys"
  by (simp add: py_sorted_reverse_def)

lemma py_sorted_reverse_sorted: "sorted (rev (map f (py_sorted_reverse f ys)))"
  by (simp add: py_sorted_reverse_def rev_map)

lemma py_sorted_reverse_stable:
  "filter (\<lambda>x. f x = k) (py_sorted_reverse f ys) = filter (\<lambda>x. f x = k) ys"
proof -
  have "filter (\<lambda>x. f x = k) (py_sorted_reverse f ys) =
        rev (filter (\<lambda>x. f x = k) (sort_key f (rev ys)))"
    by (simp add: py_sorted_reverse_def rev_filter)
  also have "\<dots> = rev (filter (\<lambda>x. f x = k) (rev ys))"
    by (simp only: sort_key_stable)
  also have "\<dots> = filter (\<lambda>x. f x = k) ys"
    by (simp add: rev_filter)
  finally show ?thesis .
qed

lemma extract_locations_none: "extract_locations E text = None \<longleftrightarrow> ents E text = None"
  by (cases "ents E text") (simp_all add: extract_locations_def Let_def)

lemma extract_locations_ranked:
  assumes ok: "set_order_ok (set_iter E)" and e: "ents E text = Some es"
    and c: "cleaned = normalize (rule_matches E text @ ner_matches es)"
  shows "\<exists>result. extract_locations E text = Some result \<and>
           set result = (\<lambda>loc. py_title (py_strip loc)) ` set (rule_matches E text @ ner_matches es) \<and>
           distinct result \<and>
           (\<forall>a \<in> set result. \<forall>b \<in> set result. py_lower a = py_lower b \<longrightarrow> a = b) \<and>
           sorted (rev (map (count_list cleaned) result)) \<and>
           (\<forall>k. filter (\<lambda>x. count_list cleaned x = k) result =
                filter (\<lambda>x. count_list cleaned x = k) (set_iter E cleaned))"
proof -
  let ?r = "rank_locations E cleaned"
  from ok have d: "distinct (set_iter E cleaned)" and s: "set (set_iter E cleaned) = set cleaned"
    by (simp_all add: set_order_ok_def)
  have r: "extract_locations E text = Some ?r"
    using e c by (simp add: extract_locations_def Let_def)
  have s1: "set ?r = set cleaned"
    unfolding rank_locations_def py_sorted_reverse_set s ..
  have s2: "set cleaned = (\<lambda>loc. py_title (py_strip loc)) ` set (rule_matches E text @ ner_matches es)"
    unfolding c normalize_def by (simp only: set_map)
  have d1: "distinct ?r"
    unfolding rank_locations_def py_sorted_reverse_distinct by (rule d)
  have ci: "\<forall>a \<in> set ?r. \<forall>b \<in> set ?r. py_lower a = py_lower b \<longrightarrow> a = b"
  proof (intro ballI impI)
    fix a b assume a: "a \<in> set ?r" and b: "b \<in> set ?r" and l: "py_lower a = py_lower b"
    from a s1 have a': "a \<in> set (normalize (rule_matches E text @ ner_matches es))"
      unfolding c by simp
    from b s1 have b': "b \<in> set (normalize (rule_matches E text @ ner_matches es))"
      unfolding c by simp
    from a' b' l show "a = b" by (rule normalize_case_insensitive)
  qed
  have so: "sorted (rev (map (count_list cleaned) ?r))"
    unfolding rank_locations_def by (rule py_sorted_reverse_sorted)
  have st: "\<forall>k. filter (\<lambda>x. count_list cleaned x = k) ?r =
                filter (\<lambda>x. count_list cleaned x = k) (set_iter E cleaned)"
    unfolding rank_locations_def by (simp add: py_sorted_reverse_stable)
  from r s1 s2 d1 ci so st show ?thesis by simp
qed

text \<open>
  Claim C3, as the extractor has it. The extractor returns unless the recogniser raises.
  When the set lists its elements once each, the result holds exactly the trimmed and
  title-cased matches of the patterns and of the recogniser, each once, no two of them
  equal up to case, in descending order of their number of occurrences among the
  normalised matches; names that occur equally often keep the order in which the set lists
  them.
\<close>

theorem C3_extract_locations:
  "(extract_locations E text = None \<longleftrightarrow> ents E text = None) \<and>
   (set_order_ok (set_iter E) \<and> ents E text = Some es \<and>
    cleaned = normalize (rule_matches E text @ ner_matches es) \<longrightarrow>
      (\<exists>result. extract_locations E text = Some result \<and>
         set result =
           (\<lambda>loc. py_title (py_strip loc)) ` set (rule_matches E text @ ner_matches es) \<and>
         distinct result \<and>
         (\<forall>a \<in> set result. \<forall>b \<in> set result. py_lower a = py_lower b \<longrightarrow> a = b) \<and>
         sorted (rev (map (count_list cleaned) result)) \<and>
         (\<forall>k. filter (\<lambda>x. count_list cleaned x = k) result =
              filter (\<lambda>x. count_list cleaned x = k) (set_iter E cleaned))))"
  using extract_locations_none [of E "text"] extract_locations_ranked [of E "text" es cleaned]
  by blast

lemma reversed_set_order_ok: "set_order_ok (\<lambda>xs. remdups (rev xs))"
  by (simp add: set_order_ok_def)

lemma ranked_cleaned:
  "normalize (rule_matches ranked_nlp ''Desa Kuta banjir, kota Ubud aman, desa kuta lagi'' @
              ner_matches [(''Ubud'', ''GPE''), (''Senin'', ''DATE'')]) =
     [''Desa Kuta'', ''Desa Kuta'', ''Kota Ubud'', ''Ubud'']"
  by (simp add: ranked_nlp_def rule_matches_def LOCATION_PATTERNS_def
      ner_matches_def normalize_def py_title_def
      py_strip_def py_isspace_def is_upper_def is_lower_def to_upper_def to_lower_def)

lemma ranked_extract:
  "extract_locations ranked_nlp ''Desa Kuta banjir, kota Ubud aman, desa kuta lagi'' =
     Some [''Desa Kuta'', ''Ubud'', ''Kota Ubud'']"
proof -
  have e: "ents ranked_nlp ''Desa Kuta banjir, kota Ubud aman, desa kuta lagi'' =
      Some [(''Ubud'', ''GPE''), (''Senin'', ''DATE'')]"
    by (simp add: ranked_nlp_def)
  have i: "set_iter ranked_nlp = (\<lambda>xs. remdups (rev xs))" by (simp add: ranked_nlp_def)
  show ?thesis
    unfolding extract_locations_def e Let_def option.case ranked_cleaned rank_locations_def i
    by (simp add: py_sorted_reverse_def)
qed

theorem C3_extract_locations_witness:
  "set_order_ok (set_iter ranked_nlp) \<and>
   extract_locations ranked_nlp ''Desa Kuta banjir, kota Ubud aman, desa kuta lagi'' =
     Some [''Desa Kuta'', ''Ubud'', ''Kota Ubud''] \<and>
   sorted (rev (map (count_list [''Desa Kuta'', ''Desa Kuta'', ''Kota Ubud'', ''Ubud''])
                  [''Desa Kuta'', ''Ubud'', ''Kota Ubud'']))"
proof -
  have ok: "set_order_ok (set_iter ranked_nlp)"
    using reversed_set_order_ok by (simp add: ranked_nlp_def)
  have e: "ents ranked_nlp ''Desa Kuta banjir, kota Ubud aman, desa kuta lagi'' =
      Some [(''Ubud'', ''GPE''), (''Senin'', ''DATE'')]"
    by (simp add: ranked_nlp_def)
  note T = C3_extract_locations [of ranked_nlp
      "''Desa Kuta banjir, kota Ubud aman, desa kuta lagi''"
      "[(''Ubud'', ''GPE''), (''Senin'', ''DATE'')]"
      "[''Desa Kuta'', ''Desa Kuta'', ''Kota Ubud'', ''Ubud'']"]
  have h: "set_order_ok (set_iter ranked_nlp) \<and>
      ents ranked_nlp ''Desa Kuta banjir, kota Ubud aman, desa kuta lagi'' =
        Some [(''Ubud'', ''GPE''), (''Senin'', ''DATE'')] \<and>
      [''Desa Kuta'', ''Desa Kuta'', ''Kota Ubud'', ''Ubud''] =
        normalize (rule_matches ranked_nlp ''Desa Kuta banjir, kota Ubud aman, desa kuta lagi'' @
                   ner_matches [(''Ubud'', ''GPE''), (''Senin'', ''DATE'')])"
    by (intro conjI ok e ranked_cleaned [symmetric])
  from mp [OF T [THEN conjunct2] h] obtain result
    where r: "extract_locations ranked_nlp
                ''Desa Kuta banjir, kota Ubud aman, desa kuta lagi'' = Some result"
      and so: "sorted (rev (map (count_list [''Desa Kuta'', ''Desa Kuta'', ''Kota Ubud'', ''Ubud''])
                         result))"
    by blast
  from r ranked_extract have "result = [''Desa Kuta'', ''Ubud'', ''Kota Ubud'']" by simp
  with so have "sorted (rev (map (count_list [''Desa Kuta'', ''Desa Kuta'', ''Kota Ubud'', ''Ubud''])
                  [''Desa Kuta'', ''Ubud'', ''Kota Ubud'']))"
    by (simp only:)
  with ok ranked_extract show ?thesis by (intro conjI)
qed

text \<open>
  Two names that occur once each, with a set that lists them in reverse: the result has
  them in the order of the set, and not in the order of their first appearance.
\<close>

theorem C3_ties_in_set_order:
  "set_order_ok (set_iter demo_nlp) \<and>
   extract_locations demo_nlp ''Banjir di desa Kuta dan kota Ubud'' =
     Some [''Kota Ubud'', ''Desa Kuta''] \<and>
   spec_rank (normalize (rule_matches demo_nlp ''Banjir di desa Kuta dan kota Ubud'' @
                         ner_matches [])) =
     [''Desa Kuta'', ''Kota Ubud'']"
proof -
  have ok: "set_order_ok (set_iter demo_nlp)"
    using reversed_set_order_ok by (simp add: demo_nlp_def)
  have n: "normalize (rule_matches demo_nlp ''Banjir di desa Kuta dan kota Ubud'' @
                      ner_matches []) = [''Desa Kuta'', ''Kota Ubud'']"
    by (simp add: demo_nlp_def rule_matches_def LOCATION_PATTERNS_def
        ner_matches_def normalize_def py_title_def
        py_strip_def py_isspace_def is_upper_def is_lower_def to_upper_def to_lower_def)
  have s: "spec_rank [''Desa Kuta'', ''Kota Ubud''] = [''Desa Kuta'', ''Kota Ubud'']"
    by (simp add: spec_rank_def first_appearance_def py_sorted_reverse_def)
  show ?thesis unfolding n s using ok demo_extract by simp
qed

end
